theory Spec2Isabelle
  imports Complex_Main "HOL-Library.AList"
begin

section \<open>Python values handled by the monitor\<close>

text \<open>
  The monitor stores whatever the broker client hands back. Scalars are \<open>None\<close>, numbers
  and strings. Python compares and hashes \<open>1\<close>, \<open>1.0\<close> and \<open>True\<close> as the same
  value, so the numeric types share one constructor, which carries the number the value
  denotes. The monitor stores such values as they come; where it computes with them, in
  the exposure query, the floating-point operations are a parameter of the model.

  A dictionary is an association list in insertion order, as Python keeps it:
  \<open>AList.update\<close> overwrites a present key in place and appends a new one.

  An element of a positions or trades list is either a mapping or some other object, on
  which \<open>.get\<close> raises \<open>AttributeError\<close>.
\<close>

type_synonym instant = int

datatype pyval = PNone | PNum real | PStr string

type_synonym pdict = "(string \<times> pyval) list"

datatype pyobj = PyDict pdict | PyOther

datatype error = AttributeError | TypeError | OverflowError

text \<open>
  The exposure query adds volumes as Python floats. What a float is, how a number is
  converted to one for an addition (an integer too large for a float raises
  \<open>OverflowError\<close>) and what the sum of two floats is, are parameters of the model: the
  float \<open>0.0\<close>, the conversion and the addition. What is proved of the query holds for
  every such triple, the doubles of Python among them.
\<close>

record 'f float_ops =
  fl_zero :: 'f
  fl_of_number :: "real \<Rightarrow> 'f option"
  fl_add :: "'f \<Rightarrow> 'f \<Rightarrow> 'f"

text \<open>\<open>d.get(k, dflt)\<close>; \<open>d.get(k)\<close> is \<open>dict_get d k PNone\<close>.\<close>

definition dict_get :: "pdict \<Rightarrow> string \<Rightarrow> pyval \<Rightarrow> pyval" where
  "dict_get d k dflt = (case map_of d k of None \<Rightarrow> dflt | Some v \<Rightarrow> v)"



section \<open>RealTimeMonitor.py: the per-account monitors\<close>

subsection \<open>The broker client\<close>

text \<open>
  \<open>MT5ManagerActions\<close> lives outside the repository's sources; the monitor only calls
  three of its methods and tests its connection handle. Each call either raises or
  returns; what it returns may be \<open>None\<close>. The answer may change with time, so every
  method takes the instant of the call.
\<close>

datatype 'a rpc = Raises | Returns 'a

record MT5ManagerActions =
  connected :: bool
  get_account_details :: "instant \<Rightarrow> int \<Rightarrow> pdict option rpc"
  get_open_positions :: "instant \<Rightarrow> int \<Rightarrow> pyobj list option rpc"
  get_closed_trades :: "instant \<Rightarrow> int \<Rightarrow> instant \<Rightarrow> pyobj list option rpc"

text \<open>
  The calls made on the broker client. Every update of a monitor returns, with its
  result, the calls it made.
\<close>

datatype call = DetailsCall int | PositionsCall int | TradesCall int instant

text \<open>\<open>if x:\<close> on an optional dictionary or list: \<open>None\<close> and the empty container are false.\<close>

fun nonempty :: "'a list option \<Rightarrow> bool" where
  "nonempty None = False"
| "nonempty (Some xs) = (xs \<noteq> [])"

subsection \<open>AccountMonitor\<close>

record AccountMonitor =
  am_login_id :: int
  balance :: pyval
  equity :: pyval
  margin :: pyval
  free_margin :: pyval
  margin_level :: pyval
  profit :: pyval
  am_last_update :: "instant option"
  status :: string
  group :: pyval
  leverage :: pyval

definition AccountMonitor_init :: "int \<Rightarrow> AccountMonitor" where
  "AccountMonitor_init login =
     \<lparr>am_login_id = login, balance = PNum 0, equity = PNum 0, margin = PNum 0,
      free_margin = PNum 0, margin_level = PNum 0, profit = PNum 0,
      am_last_update = None, status = ''active'', group = PStr '''', leverage = PNum 0\<rparr>"

text \<open>
  \<open>to_dict\<close> copies every field into a fresh dictionary, one entry per field; the record
  value itself stands for that dictionary. It has eleven entries, so it is never false.
\<close>

definition AccountMonitor_to_dict :: "AccountMonitor \<Rightarrow> AccountMonitor" where
  "AccountMonitor_to_dict self = self"

text \<open>
  \<open>update\<close> returns the monitor as it leaves it, the value it returns (the dictionary
  on success, \<open>None\<close> otherwise) and the call it made. The whole body sits in a
  \<open>try\<close> whose handler sets the status to \<open>error\<close>.
\<close>

definition AccountMonitor_update ::
  "MT5ManagerActions \<Rightarrow> instant \<Rightarrow> AccountMonitor \<Rightarrow>
     AccountMonitor \<times> AccountMonitor option \<times> call list" where
  "AccountMonitor_update mgr now self =
     (case get_account_details mgr now (am_login_id self) of
        Raises \<Rightarrow> (self\<lparr>status := ''error''\<rparr>, None, [DetailsCall (am_login_id self)])
      | Returns account_info \<Rightarrow>
          (if nonempty account_info then
             (let info = the account_info;
                  self' = self\<lparr>balance := dict_get info ''balance'' (PNum 0),
                               equity := dict_get info ''equity'' (PNum 0),
                               margin := dict_get info ''margin'' (PNum 0),
                               free_margin := dict_get info ''free_margin'' (PNum 0),
                               margin_level := dict_get info ''margin_level'' (PNum 0),
                               profit := dict_get info ''profit'' (PNum 0),
                               group := dict_get info ''group'' (PStr ''''),
                               leverage := dict_get info ''leverage'' (PNum 0),
                               am_last_update := Some now,
                               status := ''active''\<rparr>
              in (self', Some (AccountMonitor_to_dict self'), [DetailsCall (am_login_id self)]))
           else (self\<lparr>status := ''unavailable''\<rparr>, None, [DetailsCall (am_login_id self)])))"

subsection \<open>PositionMonitor\<close>

record PositionMonitor =
  pm_login_id :: int
  positions :: "pyobj list"
  pm_last_update :: "instant option"

definition PositionMonitor_init :: "int \<Rightarrow> PositionMonitor" where
  "PositionMonitor_init login = \<lparr>pm_login_id = login, positions = [], pm_last_update = None\<rparr>"

definition PositionMonitor_update ::
  "MT5ManagerActions \<Rightarrow> instant \<Rightarrow> PositionMonitor \<Rightarrow>
     PositionMonitor \<times> pyobj list \<times> call list" where
  "PositionMonitor_update mgr now self =
     (case get_open_positions mgr now (pm_login_id self) of
        Raises \<Rightarrow> (self, [], [PositionsCall (pm_login_id self)])
      | Returns ps \<Rightarrow>
          (if nonempty ps
           then (self\<lparr>positions := the ps, pm_last_update := Some now\<rparr>, the ps,
                 [PositionsCall (pm_login_id self)])
           else (self\<lparr>positions := []\<rparr>, [], [PositionsCall (pm_login_id self)])))"

text \<open>
  \<open>[pos for pos in self.positions if pos.get('symbol') == symbol]\<close>. The list it builds is
  new, its elements are the stored dictionaries themselves: each one is returned as a
  reference, the index of its slot in \<open>self.positions\<close> together with the dictionary found
  there. The comprehension raises as soon as an element has no \<open>get\<close>.
\<close>

fun pos_get :: "pyobj \<Rightarrow> string \<Rightarrow> pyval \<Rightarrow> error + pyval" where
  "pos_get PyOther k dflt = Inl AttributeError"
| "pos_get (PyDict d) k dflt = Inr (dict_get d k dflt)"

fun positions_by_symbol_from ::
  "pyval \<Rightarrow> nat \<Rightarrow> pyobj list \<Rightarrow> error + (nat \<times> pdict) list" where
  "positions_by_symbol_from symbol i [] = Inr []"
| "positions_by_symbol_from symbol i (PyOther # rest) = Inl AttributeError"
| "positions_by_symbol_from symbol i (PyDict d # rest) =
     (case positions_by_symbol_from symbol (Suc i) rest of
        Inl e \<Rightarrow> Inl e
      | Inr refs \<Rightarrow> Inr (if dict_get d ''symbol'' PNone = symbol then (i, d) # refs else refs))"

definition PositionMonitor_get_positions_by_symbol ::
  "PositionMonitor \<Rightarrow> pyval \<Rightarrow> error + (nat \<times> pdict) list" where
  "PositionMonitor_get_positions_by_symbol self symbol =
     positions_by_symbol_from symbol 0 (positions self)"

text \<open>
  \<open>get_total_volume_by_symbol\<close>: a \<open>defaultdict(float)\<close> filled by
  \<open>volume_by_symbol[symbol] += volume\<close>, a float addition of the entry (\<open>0.0\<close> when
  missing) and the volume. Adding \<open>None\<close> or a string to a float raises \<open>TypeError\<close>;
  adding a number that does not convert raises \<open>OverflowError\<close>.
\<close>

definition volume_get :: "'f float_ops \<Rightarrow> (pyval \<times> 'f) list \<Rightarrow> pyval \<Rightarrow> 'f" where
  "volume_get ops volume_by_symbol symbol =
     (case map_of volume_by_symbol symbol of None \<Rightarrow> fl_zero ops | Some v \<Rightarrow> v)"

fun total_volume_loop ::
  "'f float_ops \<Rightarrow> pyobj list \<Rightarrow> (pyval \<times> 'f) list \<Rightarrow> error + (pyval \<times> 'f) list" where
  "total_volume_loop ops [] volume_by_symbol = Inr volume_by_symbol"
| "total_volume_loop ops (PyOther # rest) volume_by_symbol = Inl AttributeError"
| "total_volume_loop ops (PyDict d # rest) volume_by_symbol =
     (let symbol = dict_get d ''symbol'' (PStr '''');
          volume = dict_get d ''volume'' (PNum 0)
      in case volume of
           PNum v \<Rightarrow>
             (case fl_of_number ops v of
                None \<Rightarrow> Inl OverflowError
              | Some x \<Rightarrow>
                  total_volume_loop ops rest
                    (AList.update symbol (fl_add ops (volume_get ops volume_by_symbol symbol) x)
                       volume_by_symbol))
         | _ \<Rightarrow> Inl TypeError)"

definition PositionMonitor_get_total_volume_by_symbol ::
  "'f float_ops \<Rightarrow> PositionMonitor \<Rightarrow> error + (pyval \<times> 'f) list" where
  "PositionMonitor_get_total_volume_by_symbol ops self = total_volume_loop ops (positions self) []"

text \<open>
  \<open>to_dict\<close>: the \<open>symbols\<close> entry is \<open>list(set(...))\<close>, whose order Python leaves open,
  so it is kept as a set. The generator raises on an element without \<open>get\<close>.
\<close>

record positions_dict =
  pd_login_id :: int
  pd_positions :: "pyobj list"
  position_count :: nat
  symbols :: "pyval set"
  pd_last_update :: "instant option"

fun collect_symbols :: "pyobj list \<Rightarrow> error + pyval list" where
  "collect_symbols [] = Inr []"
| "collect_symbols (pos # rest) =
     (case pos_get pos ''symbol'' (PStr '''') of
        Inl e \<Rightarrow> Inl e
      | Inr s \<Rightarrow> (case collect_symbols rest of Inl e \<Rightarrow> Inl e | Inr ss \<Rightarrow> Inr (s # ss)))"

definition PositionMonitor_to_dict :: "PositionMonitor \<Rightarrow> error + positions_dict" where
  "PositionMonitor_to_dict self =
     (case collect_symbols (positions self) of
        Inl e \<Rightarrow> Inl e
      | Inr ss \<Rightarrow>
          Inr \<lparr>pd_login_id = pm_login_id self, pd_positions = positions self,
               position_count = length (positions self), symbols = set ss,
               pd_last_update = pm_last_update self\<rparr>)"

subsection \<open>TradeMonitor\<close>

text \<open>Instants count microseconds; \<open>timedelta(days=30)\<close> is thirty days of them.\<close>

definition timedelta_days :: "int \<Rightarrow> int" where
  "timedelta_days n = n * 86400000000"

record TradeMonitor =
  tm_login_id :: int
  trades :: "pyobj list"
  tm_last_update :: "instant option"
  from_date :: instant

definition TradeMonitor_init :: "instant \<Rightarrow> int \<Rightarrow> TradeMonitor" where
  "TradeMonitor_init now login =
     \<lparr>tm_login_id = login, trades = [], tm_last_update = None,
      from_date = now - timedelta_days 30\<rparr>"

definition TradeMonitor_update ::
  "MT5ManagerActions \<Rightarrow> instant \<Rightarrow> TradeMonitor \<Rightarrow>
     TradeMonitor \<times> pyobj list \<times> call list" where
  "TradeMonitor_update mgr now self =
     (case get_closed_trades mgr now (tm_login_id self) (from_date self) of
        Raises \<Rightarrow> (self, [], [TradesCall (tm_login_id self) (from_date self)])
      | Returns ts \<Rightarrow>
          (if nonempty ts
           then (self\<lparr>trades := the ts, tm_last_update := Some now\<rparr>, the ts,
                 [TradesCall (tm_login_id self) (from_date self)])
           else (self\<lparr>trades := []\<rparr>, [], [TradesCall (tm_login_id self) (from_date self)])))"

section \<open>RealTimeMonitor.py: RealTimeMonitorSystem\<close>

text \<open>
  \<open>monitored_accounts\<close> is a Python dictionary from login to the three monitors: an
  association list in insertion order, which is the order \<open>.items()\<close> walks. The lock,
  the thread and the callback list are not part of the state; what a tick hands to the
  callbacks is part of its result.
\<close>

record monitors =
  m_account :: AccountMonitor
  m_positions :: PositionMonitor
  m_trades :: TradeMonitor

record rms_stats =
  total_updates :: nat
  last_update :: "instant option"
  errors :: nat
  monitored_count :: nat

record RealTimeMonitorSystem =
  update_interval :: int
  monitored_accounts :: "(int \<times> monitors) list"
  manager :: "MT5ManagerActions option"
  running :: bool
  stats :: rms_stats

definition RealTimeMonitorSystem_init :: "int \<Rightarrow> RealTimeMonitorSystem" where
  "RealTimeMonitorSystem_init interval =
     \<lparr>update_interval = interval, monitored_accounts = [], manager = None, running = False,
      stats = \<lparr>total_updates = 0, last_update = None, errors = 0, monitored_count = 0\<rparr>\<rparr>"

text \<open>
  \<open>initialize\<close>: the constructor of the broker client raises or returns a client, which
  is stored before its connection is tested.
\<close>

definition initialize ::
  "MT5ManagerActions rpc \<Rightarrow> RealTimeMonitorSystem \<Rightarrow> RealTimeMonitorSystem \<times> bool" where
  "initialize made self =
     (case made of
        Raises \<Rightarrow> (self, False)
      | Returns mgr \<Rightarrow> (self\<lparr>manager := Some mgr\<rparr>, connected mgr))"

definition add_account :: "instant \<Rightarrow> int \<Rightarrow> RealTimeMonitorSystem \<Rightarrow> RealTimeMonitorSystem" where
  "add_account now login_id self =
     (if login_id \<notin> fst ` set (monitored_accounts self) then
        (let accounts = monitored_accounts self @
               [(login_id, \<lparr>m_account = AccountMonitor_init login_id,
                            m_positions = PositionMonitor_init login_id,
                            m_trades = TradeMonitor_init now login_id\<rparr>)]
         in self\<lparr>monitored_accounts := accounts,
                 stats := (stats self)\<lparr>monitored_count := length accounts\<rparr>\<rparr>)
      else self)"

definition remove_account :: "int \<Rightarrow> RealTimeMonitorSystem \<Rightarrow> RealTimeMonitorSystem" where
  "remove_account login_id self =
     (if login_id \<in> fst ` set (monitored_accounts self) then
        (let accounts = AList.delete login_id (monitored_accounts self)
         in self\<lparr>monitored_accounts := accounts,
                 stats := (stats self)\<lparr>monitored_count := length accounts\<rparr>\<rparr>)
      else self)"

subsection \<open>The tick: \<open>_update_all_accounts\<close>\<close>

record trades_summary =
  trade_count :: nat
  ts_last_update :: "instant option"

record frame =
  f_account :: AccountMonitor
  f_positions :: positions_dict
  f_trades_summary :: trades_summary

text \<open>
  The body of the \<open>for\<close> loop, inside its \<open>try\<close>. The three monitors are updated in
  place, so they keep what the updates did also when building the frame raises. The
  result is \<open>Inl\<close> when the body raised, \<open>Inr None\<close> when it appended nothing and
  \<open>Inr (Some f)\<close> when it appended the frame \<open>f\<close>. The calls are those the updates
  made; when the trade monitor is not updated, \<open>trades_data\<close> is the list it holds and
  no call is made for it.
\<close>

definition update_account ::
  "MT5ManagerActions \<Rightarrow> instant \<Rightarrow> nat \<Rightarrow> monitors \<Rightarrow>
     monitors \<times> (error + frame option) \<times> call list" where
  "update_account mgr now updates mons =
     (let (account', account_data, account_calls) =
             AccountMonitor_update mgr now (m_account mons);
          (positions', positions_data, positions_calls) =
             PositionMonitor_update mgr now (m_positions mons);
          (trades', trades_data, trades_calls) =
             (if updates mod 5 = 0 then TradeMonitor_update mgr now (m_trades mons)
              else (m_trades mons, trades (m_trades mons), []));
          mons' = \<lparr>m_account = account', m_positions = positions', m_trades = trades'\<rparr>;
          calls = account_calls @ positions_calls @ trades_calls
      in case account_data of
           None \<Rightarrow> (mons', Inr None, calls)
         | Some account_dict \<Rightarrow>
             (case PositionMonitor_to_dict positions' of
                Inl e \<Rightarrow> (mons', Inl e, calls)
              | Inr positions_dict \<Rightarrow>
                  (mons',
                   Inr (Some \<lparr>f_account = account_dict, f_positions = positions_dict,
                              f_trades_summary =
                                \<lparr>trade_count = length trades_data,
                                 ts_last_update = tm_last_update trades'\<rparr>\<rparr>),
                   calls)))"

text \<open>
  The loop over \<open>self.monitored_accounts.items()\<close>: it carries the frames appended so
  far and the error counter, and returns the accounts as updated, the frames, the
  counter and the broker calls made.
\<close>

fun update_loop ::
  "MT5ManagerActions \<Rightarrow> instant \<Rightarrow> nat \<Rightarrow> (int \<times> monitors) list \<Rightarrow> frame list \<Rightarrow> nat \<Rightarrow>
     (int \<times> monitors) list \<times> frame list \<times> nat \<times> call list" where
  "update_loop mgr now updates [] accounts_data errs = ([], accounts_data, errs, [])"
| "update_loop mgr now updates ((login_id, mons) # rest) accounts_data errs =
     (let (mons', r, calls) = update_account mgr now updates mons;
          accounts_data' = (case r of Inr (Some f) \<Rightarrow> accounts_data @ [f] | _ \<Rightarrow> accounts_data);
          errs' = (case r of Inl e \<Rightarrow> errs + 1 | _ \<Rightarrow> errs);
          (rest', fs, n, calls') = update_loop mgr now updates rest accounts_data' errs'
      in ((login_id, mons') # rest', fs, n, calls @ calls'))"

text \<open>
  One tick. Without a manager it returns at once: nothing changes and no callback runs.
  Otherwise the second component is the list handed to every callback.
\<close>

definition update_all_accounts ::
  "instant \<Rightarrow> RealTimeMonitorSystem \<Rightarrow> RealTimeMonitorSystem \<times> frame list option \<times> call list" where
  "update_all_accounts now self =
     (case manager self of
        None \<Rightarrow> (self, None, [])
      | Some mgr \<Rightarrow>
          (let (accounts, accounts_data, errs, calls) =
                 update_loop mgr now (total_updates (stats self)) (monitored_accounts self) []
                   (errors (stats self))
           in (self\<lparr>monitored_accounts := accounts,
                    stats := (stats self)\<lparr>errors := errs,
                                          total_updates := total_updates (stats self) + 1,
                                          last_update := Some now\<rparr>\<rparr>,
               Some accounts_data, calls)))"

text \<open>
  Consecutive ticks of the monitor loop, one per instant of the list; the result keeps
  the broker calls of every tick.
\<close>

fun run_ticks ::
  "instant list \<Rightarrow> RealTimeMonitorSystem \<Rightarrow> RealTimeMonitorSystem \<times> call list list" where
  "run_ticks [] self = (self, [])"
| "run_ticks (now # later) self =
     (let (self', frames, calls) = update_all_accounts now self;
          (self'', log) = run_ticks later self'
      in (self'', calls # log))"

text \<open>The list a tick hands to the callbacks; empty when it hands out none.\<close>

definition tick_frames :: "instant \<Rightarrow> RealTimeMonitorSystem \<Rightarrow> frame list" where
  "tick_frames now self =
     (case fst (snd (update_all_accounts now self)) of None \<Rightarrow> [] | Some frames \<Rightarrow> frames)"

subsection \<open>Queries across accounts\<close>

text \<open>
  \<open>get_positions_by_symbol\<close>: for every account, the references its position monitor
  returns are walked; \<open>pos['login_id'] = login_id\<close> writes into the referenced
  dictionary, that is into the slot of the stored list it came from, and the same
  dictionary is appended to the result. Every slot of every stored list is taken to
  hold an object of its own. When a monitor raises, the query raises and the writes made
  so far stay.
\<close>

fun tag_positions ::
  "int \<Rightarrow> (nat \<times> pdict) list \<Rightarrow> pyobj list \<Rightarrow> pdict list \<Rightarrow> pyobj list \<times> pdict list" where
  "tag_positions login_id [] stored all_positions = (stored, all_positions)"
| "tag_positions login_id ((i, pos) # rest) stored all_positions =
     (let pos' = AList.update ''login_id'' (PNum (of_int login_id)) pos
      in tag_positions login_id rest (stored[i := PyDict pos']) (all_positions @ [pos']))"

fun positions_loop ::
  "pyval \<Rightarrow> (int \<times> monitors) list \<Rightarrow> pdict list \<Rightarrow>
     (int \<times> monitors) list \<times> (error + pdict list)" where
  "positions_loop symbol [] all_positions = ([], Inr all_positions)"
| "positions_loop symbol ((login_id, mons) # rest) all_positions =
     (case PositionMonitor_get_positions_by_symbol (m_positions mons) symbol of
        Inl e \<Rightarrow> ((login_id, mons) # rest, Inl e)
      | Inr refs \<Rightarrow>
          (let (stored, all_positions') =
                 tag_positions login_id refs (positions (m_positions mons)) all_positions;
               mons' = mons\<lparr>m_positions := (m_positions mons)\<lparr>positions := stored\<rparr>\<rparr>;
               (rest', r) = positions_loop symbol rest all_positions'
           in ((login_id, mons') # rest', r)))"

definition get_positions_by_symbol ::
  "string \<Rightarrow> RealTimeMonitorSystem \<Rightarrow> RealTimeMonitorSystem \<times> (error + pdict list)" where
  "get_positions_by_symbol symbol self =
     (let (accounts, r) = positions_loop (PStr symbol) (monitored_accounts self) []
      in (self\<lparr>monitored_accounts := accounts\<rparr>, r))"

text \<open>
  \<open>get_total_exposure_by_symbol\<close>: a \<open>defaultdict\<close> whose missing entries start at
  \<open>{'volume': 0.0, 'accounts': 0, 'positions': 0}\<close>; the volume of an entry grows by a
  float addition. The query assigns to nothing but its own local dictionaries, so the
  state it returns is the state it got.
\<close>

record 'f exposure_entry =
  ex_volume :: 'f
  ex_accounts :: nat
  ex_positions :: nat

type_synonym 'f exposure = "(pyval \<times> 'f exposure_entry) list"

definition exposure_get :: "'f float_ops \<Rightarrow> 'f exposure \<Rightarrow> pyval \<Rightarrow> 'f exposure_entry" where
  "exposure_get ops exposure symbol =
     (case map_of exposure symbol of
        None \<Rightarrow> \<lparr>ex_volume = fl_zero ops, ex_accounts = 0, ex_positions = 0\<rparr>
      | Some e \<Rightarrow> e)"

fun exposure_items ::
  "'f float_ops \<Rightarrow> PositionMonitor \<Rightarrow> (pyval \<times> 'f) list \<Rightarrow> 'f exposure \<Rightarrow> error + 'f exposure" where
  "exposure_items ops pm [] exposure = Inr exposure"
| "exposure_items ops pm ((symbol, volume) # rest) exposure =
     (let e = exposure_get ops exposure symbol;
          e1 = e\<lparr>ex_volume := fl_add ops (ex_volume e) volume\<rparr>;
          e2 = e1\<lparr>ex_accounts := ex_accounts e1 + 1\<rparr>
      in case PositionMonitor_get_positions_by_symbol pm symbol of
           Inl err \<Rightarrow> Inl err
         | Inr refs \<Rightarrow>
             exposure_items ops pm rest
               (AList.update symbol (e2\<lparr>ex_positions := ex_positions e2 + length refs\<rparr>) exposure))"

fun exposure_loop ::
  "'f float_ops \<Rightarrow> (int \<times> monitors) list \<Rightarrow> 'f exposure \<Rightarrow> error + 'f exposure" where
  "exposure_loop ops [] exposure = Inr exposure"
| "exposure_loop ops ((login_id, mons) # rest) exposure =
     (case PositionMonitor_get_total_volume_by_symbol ops (m_positions mons) of
        Inl e \<Rightarrow> Inl e
      | Inr volume_by_symbol \<Rightarrow>
          (case exposure_items ops (m_positions mons) volume_by_symbol exposure of
             Inl e \<Rightarrow> Inl e
           | Inr exposure' \<Rightarrow> exposure_loop ops rest exposure'))"

definition get_total_exposure_by_symbol ::
  "'f float_ops \<Rightarrow> RealTimeMonitorSystem \<Rightarrow> RealTimeMonitorSystem \<times> (error + 'f exposure)" where
  "get_total_exposure_by_symbol ops self = (self, exposure_loop ops (monitored_accounts self) [])"

section \<open>Matrix_lot.py: the side of a position\<close>




section \<open>What the queries are measured against\<close>












fun is_mapping :: "pyobj \<Rightarrow> bool" where
  "is_mapping PyOther = False"
| "is_mapping (PyDict d) = True"


definition readable :: "int \<times> monitors \<Rightarrow> bool" where
  "readable entry = list_all is_mapping (positions (m_positions (snd entry)))"

definition all_mappings :: "RealTimeMonitorSystem \<Rightarrow> bool" where
  "all_mappings self = list_all readable (monitored_accounts self)"


text \<open>
  The symbol query as a comprehension: account by account in the order of the registry,
  every stored mapping whose \<open>symbol\<close> entry is the symbol asked for, in stored order,
  with the account's login written into it.
\<close>

definition tag :: "int \<Rightarrow> pdict \<Rightarrow> pdict" where
  "tag login_id pos = AList.update ''login_id'' (PNum (of_int login_id)) pos"

fun matching :: "pyval \<Rightarrow> pyobj list \<Rightarrow> pdict list" where
  "matching symbol [] = []"
| "matching symbol (PyOther # rest) = matching symbol rest"
| "matching symbol (PyDict d # rest) =
     (if dict_get d ''symbol'' PNone = symbol then d # matching symbol rest
      else matching symbol rest)"

definition positions_with_symbol :: "RealTimeMonitorSystem \<Rightarrow> string \<Rightarrow> pdict list" where
  "positions_with_symbol self symbol =
     concat (map (\<lambda>(login_id, mons).
        map (tag login_id) (matching (PStr symbol) (positions (m_positions mons))))
       (monitored_accounts self))"

fun tag_matching :: "int \<Rightarrow> pyval \<Rightarrow> pyobj \<Rightarrow> pyobj" where
  "tag_matching login_id symbol PyOther = PyOther"
| "tag_matching login_id symbol (PyDict d) =
     (if dict_get d ''symbol'' PNone = symbol then PyDict (tag login_id d) else PyDict d)"

definition tag_entry :: "pyval \<Rightarrow> int \<times> monitors \<Rightarrow> int \<times> monitors" where
  "tag_entry symbol = (\<lambda>(login_id, mons).
     (login_id, mons\<lparr>m_positions := (m_positions mons)
        \<lparr>positions := map (tag_matching login_id symbol) (positions (m_positions mons))\<rparr>\<rparr>))"

text \<open>
  What a registry entry holds beside the contents of its stored positions: its key, the
  account monitor, the trade monitor, and the login, timestamp and length of the
  position monitor.
\<close>

definition outside_positions ::
  "int \<times> monitors \<Rightarrow> int \<times> AccountMonitor \<times> TradeMonitor \<times> int \<times> instant option \<times> nat" where
  "outside_positions entry =
     (fst entry, m_account (snd entry), m_trades (snd entry), pm_login_id (m_positions (snd entry)),
      pm_last_update (m_positions (snd entry)), length (positions (m_positions (snd entry))))"

section \<open>Runs of the engine\<close>

text \<open>
  The operations that change the engine, and the states they reach from a fresh one.
\<close>

datatype operation =
    Initialize "MT5ManagerActions rpc"
  | AddAccount instant int
  | RemoveAccount int
  | Tick instant

fun apply_operation :: "operation \<Rightarrow> RealTimeMonitorSystem \<Rightarrow> RealTimeMonitorSystem" where
  "apply_operation (Initialize made) self = fst (initialize made self)"
| "apply_operation (AddAccount now login_id) self = add_account now login_id self"
| "apply_operation (RemoveAccount login_id) self = remove_account login_id self"
| "apply_operation (Tick now) self = fst (update_all_accounts now self)"

fun apply_operations :: "operation list \<Rightarrow> RealTimeMonitorSystem \<Rightarrow> RealTimeMonitorSystem" where
  "apply_operations [] self = self"
| "apply_operations (op # ops) self = apply_operations ops (apply_operation op self)"

text \<open>
  Every key of the registry is held once and names the account its three monitors
  watch.
\<close>

definition registry_ok :: "RealTimeMonitorSystem \<Rightarrow> bool" where
  "registry_ok self =
     (distinct (map fst (monitored_accounts self)) \<and>
      list_all (\<lambda>(login_id, mons).
          am_login_id (m_account mons) = login_id \<and>
          pm_login_id (m_positions mons) = login_id \<and>
          tm_login_id (m_trades mons) = login_id)
        (monitored_accounts self))"

text \<open>The closed-trades fetches for one account among the broker calls of a tick.\<close>

fun is_trades_call :: "int \<Rightarrow> call \<Rightarrow> bool" where
  "is_trades_call login_id (TradesCall l since) = (l = login_id)"
| "is_trades_call login_id c = False"

definition trades_fetches :: "int \<Rightarrow> call list \<Rightarrow> nat" where
  "trades_fetches login_id calls = length (filter (is_trades_call login_id) calls)"

text \<open>The stored trade monitors, account by account.\<close>

definition stored_trades :: "RealTimeMonitorSystem \<Rightarrow> (int \<times> TradeMonitor) list" where
  "stored_trades self = map (\<lambda>(login_id, mons). (login_id, m_trades mons)) (monitored_accounts self)"

text \<open>
  What a trade monitor holds after a closed-trades fetch for an account, by the answer
  of the broker: the list returned, nothing when the broker returns nothing, and what
  it held before when the call raises.
\<close>

definition fetched_trades ::
  "MT5ManagerActions \<Rightarrow> instant \<Rightarrow> int \<Rightarrow> TradeMonitor \<Rightarrow> pyobj list" where
  "fetched_trades mgr now login_id tm =
     (case get_closed_trades mgr now login_id (from_date tm) of
        Raises \<Rightarrow> trades tm
      | Returns None \<Rightarrow> []
      | Returns (Some ts) \<Rightarrow> ts)"

text \<open>A details fetch succeeds when the broker returns a dictionary that is not empty.\<close>

definition details_ok :: "MT5ManagerActions \<Rightarrow> instant \<Rightarrow> int \<Rightarrow> bool" where
  "details_ok mgr now login_id =
     (case get_account_details mgr now login_id of
        Raises \<Rightarrow> False
      | Returns account_info \<Rightarrow> nonempty account_info)"

section \<open>A concrete run\<close>

text \<open>
  A broker that has no details for account 1 and answers normally for account 2;
  account 1 holds one EURUSD buy of 1 lot, account 2 one EURUSD sell of 2 lots, and
  every account has two closed trades. Account 2 is registered first.
\<close>

definition demo_manager :: MT5ManagerActions where
  "demo_manager =
     \<lparr>connected = True,
      get_account_details = (\<lambda>now login_id.
         if login_id = 1 then Returns None
         else if login_id = 2 then
           Returns (Some [(''balance'', PNum 500), (''equity'', PNum 520), (''margin'', PNum 100)])
         else Raises),
      get_open_positions = (\<lambda>now login_id.
         if login_id = 1 then
           Returns (Some [PyDict [(''symbol'', PStr ''EURUSD''), (''volume'', PNum 1), (''type'', PNum 0)]])
         else if login_id = 2 then
           Returns (Some [PyDict [(''symbol'', PStr ''EURUSD''), (''volume'', PNum 2), (''type'', PNum 1)]])
         else Raises),
      get_closed_trades = (\<lambda>now login_id since.
         Returns (Some [PyDict [(''symbol'', PStr ''EURUSD''), (''profit'', PNum 5)],
                        PyDict [(''symbol'', PStr ''GBPUSD''), (''profit'', PNum 7)]]))\<rparr>"

definition demo_start :: RealTimeMonitorSystem where
  "demo_start =
     apply_operations [Initialize (Returns demo_manager), AddAccount 0 2, AddAccount 0 1]
       (RealTimeMonitorSystem_init 5)"

definition demo_state :: RealTimeMonitorSystem where
  "demo_state = apply_operation (Tick 10) demo_start"

text \<open>
  Python's doubles where they are exact. A whole number of magnitude at most \<open>2^53\<close> is
  a double, converting it changes nothing, and the sum of two such doubles, when it is
  such a number again, is that number. \<open>Some r\<close> is that double; \<open>None\<close> stands for every
  other double, which these operations do not follow any further. A number that rounds
  to \<open>2^1024\<close> or beyond is an integer too large for a double.
\<close>

definition whole :: "real \<Rightarrow> bool" where
  "whole r = (r = of_int \<lfloor>r\<rfloor> \<and> \<bar>r\<bar> \<le> 2 ^ 53)"

definition whole_number_ops :: "real option float_ops" where
  "whole_number_ops =
     \<lparr>fl_zero = Some 0,
      fl_of_number = (\<lambda>r. if whole r then Some (Some r)
                          else if 2 ^ 1024 - 2 ^ 970 \<le> \<bar>r\<bar> then None
                          else Some None),
      fl_add = (\<lambda>a b. case a of
                         None \<Rightarrow> None
                       | Some x \<Rightarrow> (case b of
                                     None \<Rightarrow> None
                                   | Some y \<Rightarrow> if whole (x + y) then Some (x + y) else None))\<rparr>"

text \<open>
  Building the frame of an account raises: its details were fetched, so the frame is
  built, and after the positions fetch a stored position is not a mapping.
\<close>

definition frame_raises :: "MT5ManagerActions \<Rightarrow> instant \<Rightarrow> monitors \<Rightarrow> bool" where
  "frame_raises mgr now mons =
     (details_ok mgr now (am_login_id (m_account mons)) \<and>
      \<not> list_all is_mapping (positions (fst (PositionMonitor_update mgr now (m_positions mons)))))"

text \<open>The same broker, handing out raw position objects instead of mappings.\<close>

definition raw_manager :: MT5ManagerActions where
  "raw_manager = demo_manager\<lparr>get_open_positions := (\<lambda>now login_id. Returns (Some [PyOther]))\<rparr>"

definition raw_start :: RealTimeMonitorSystem where
  "raw_start =
     apply_operations [Initialize (Returns raw_manager), AddAccount 0 2, AddAccount 0 1]
       (RealTimeMonitorSystem_init 5)"

section \<open>Facts about the tick\<close>

lemma update_loop_eq:
  "update_loop mgr now u accs fs e =
     (map (\<lambda>(k, m). (k, fst (update_account mgr now u m))) accs,
      fs @ concat (map (\<lambda>(k, m). case fst (snd (update_account mgr now u m)) of
                                     Inr (Some f) \<Rightarrow> [f] | _ \<Rightarrow> []) accs),
      e + length (filter (\<lambda>(k, m). isl (fst (snd (update_account mgr now u m)))) accs),
      concat (map (\<lambda>(k, m). snd (snd (update_account mgr now u m))) accs))"
  by (induction accs arbitrary: fs e)
     (auto split: prod.splits sum.splits option.splits)

lemma AccountMonitor_update_calls:
  "snd (snd (AccountMonitor_update mgr now a)) = [DetailsCall (am_login_id a)]"
  by (simp add: AccountMonitor_update_def Let_def split: rpc.splits)

lemma PositionMonitor_update_calls:
  "snd (snd (PositionMonitor_update mgr now p)) = [PositionsCall (pm_login_id p)]"
  by (simp add: PositionMonitor_update_def split: rpc.splits)

lemma TradeMonitor_update_calls:
  "snd (snd (TradeMonitor_update mgr now t)) = [TradesCall (tm_login_id t) (from_date t)]"
  by (simp add: TradeMonitor_update_def split: rpc.splits)

lemma update_account_calls:
  "snd (snd (update_account mgr now u m)) =
     [DetailsCall (am_login_id (m_account m)), PositionsCall (pm_login_id (m_positions m))] @
     (if u mod 5 = 0 then [TradesCall (tm_login_id (m_trades m)) (from_date (m_trades m))] else [])"
  using AccountMonitor_update_calls[of mgr now "m_account m"]
        PositionMonitor_update_calls[of mgr now "m_positions m"]
        TradeMonitor_update_calls[of mgr now "m_trades m"]
  by (auto simp add: update_account_def Let_def split: prod.splits option.splits sum.splits)

lemma update_account_trades_kept:
  "u mod 5 \<noteq> 0 \<Longrightarrow> m_trades (fst (update_account mgr now u m)) = m_trades m"
  by (simp add: update_account_def Let_def split: prod.splits option.splits sum.splits)

lemma AccountMonitor_update_login:
  "am_login_id (fst (AccountMonitor_update mgr now a)) = am_login_id a"
  by (simp add: AccountMonitor_update_def Let_def split: rpc.splits)

lemma PositionMonitor_update_login:
  "pm_login_id (fst (PositionMonitor_update mgr now p)) = pm_login_id p"
  by (simp add: PositionMonitor_update_def split: rpc.splits)

lemma TradeMonitor_update_login:
  "tm_login_id (fst (TradeMonitor_update mgr now t)) = tm_login_id t
   \<and> from_date (fst (TradeMonitor_update mgr now t)) = from_date t"
  by (simp add: TradeMonitor_update_def split: rpc.splits)

lemma update_account_logins:
  "am_login_id (m_account (fst (update_account mgr now u m))) = am_login_id (m_account m)
   \<and> pm_login_id (m_positions (fst (update_account mgr now u m))) = pm_login_id (m_positions m)
   \<and> tm_login_id (m_trades (fst (update_account mgr now u m))) = tm_login_id (m_trades m)
   \<and> from_date (m_trades (fst (update_account mgr now u m))) = from_date (m_trades m)"
  using AccountMonitor_update_login[of mgr now "m_account m"]
        PositionMonitor_update_login[of mgr now "m_positions m"]
        TradeMonitor_update_login[of mgr now "m_trades m"]
  by (auto simp add: update_account_def Let_def split: prod.splits option.splits sum.splits)

lemma AccountMonitor_update_result:
  "fst (snd (AccountMonitor_update mgr now a)) =
     (if details_ok mgr now (am_login_id a) then Some (fst (AccountMonitor_update mgr now a)) else None)"
  by (simp add: AccountMonitor_update_def details_ok_def AccountMonitor_to_dict_def Let_def
           split: rpc.splits)

lemma collect_symbols_isl: "isl (collect_symbols ps) = (\<not> list_all is_mapping ps)"
proof (induction ps)
  case Nil
  show ?case by simp
next
  case (Cons p ps)
  then show ?case by (cases p) (auto split: sum.splits)
qed

lemma to_dict_isl: "isl (PositionMonitor_to_dict p) = (\<not> list_all is_mapping (positions p))"
  using collect_symbols_isl[of "positions p"]
  by (auto simp: PositionMonitor_to_dict_def split: sum.splits)

lemma update_account_raises:
  "isl (fst (snd (update_account mgr now u m))) =
     (details_ok mgr now (am_login_id (m_account m)) \<and>
      \<not> list_all is_mapping (positions (fst (PositionMonitor_update mgr now (m_positions m)))))"
  using AccountMonitor_update_result[of mgr now "m_account m"]
        to_dict_isl[of "fst (PositionMonitor_update mgr now (m_positions m))"]
  by (auto simp add: update_account_def Let_def split: prod.splits option.splits sum.splits if_splits)

lemma update_account_frame:
  "fst (snd (update_account mgr now u m)) = Inr (Some f) \<Longrightarrow>
     details_ok mgr now (am_login_id (m_account m)) \<and>
     f_account f = m_account (fst (update_account mgr now u m))"
  using AccountMonitor_update_result[of mgr now "m_account m"]
  by (auto simp add: update_account_def Let_def split: prod.splits option.splits sum.splits if_splits)

section \<open>The details fetch\<close>

text \<open>
  C3. For every account monitor and every details fetch: when the broker returns a
  dictionary that is not empty, every detail field is overwritten with the entry of the
  dictionary (or the default of the field), the status becomes \<open>active\<close> and
  \<open>last_update\<close> the instant of the update; when the broker returns nothing, only the
  status changes, to \<open>unavailable\<close>; when the call raises, only the status changes, to
  \<open>error\<close>.
\<close>

theorem details_fetch:
  "(get_account_details mgr now (am_login_id self) = Returns account_info \<and> nonempty account_info \<longrightarrow>
      fst (AccountMonitor_update mgr now self) =
        self\<lparr>balance := dict_get (the account_info) ''balance'' (PNum 0),
             equity := dict_get (the account_info) ''equity'' (PNum 0),
             margin := dict_get (the account_info) ''margin'' (PNum 0),
             free_margin := dict_get (the account_info) ''free_margin'' (PNum 0),
             margin_level := dict_get (the account_info) ''margin_level'' (PNum 0),
             profit := dict_get (the account_info) ''profit'' (PNum 0),
             group := dict_get (the account_info) ''group'' (PStr ''''),
             leverage := dict_get (the account_info) ''leverage'' (PNum 0),
             am_last_update := Some now,
             status := ''active''\<rparr>)
   \<and> (get_account_details mgr now (am_login_id self) = Returns account_info \<and> \<not> nonempty account_info \<longrightarrow>
      fst (AccountMonitor_update mgr now self) = self\<lparr>status := ''unavailable''\<rparr>)
   \<and> (get_account_details mgr now (am_login_id self) = Raises \<longrightarrow>
      fst (AccountMonitor_update mgr now self) = self\<lparr>status := ''error''\<rparr>)"
  by (simp add: AccountMonitor_update_def Let_def)

theorem details_fetch_witness:
  "get_account_details demo_manager 10 (am_login_id (AccountMonitor_init 2)) =
     Returns (Some [(''balance'', PNum 500), (''equity'', PNum 520), (''margin'', PNum 100)])
   \<and> fst (AccountMonitor_update demo_manager 10 (AccountMonitor_init 2)) =
       (AccountMonitor_init 2)\<lparr>balance := PNum 500, equity := PNum 520, margin := PNum 100,
                                am_last_update := Some 10\<rparr>
   \<and> get_account_details demo_manager 10 (am_login_id ((AccountMonitor_init 1)\<lparr>balance := PNum 7\<rparr>)) =
       Returns None
   \<and> fst (AccountMonitor_update demo_manager 10 ((AccountMonitor_init 1)\<lparr>balance := PNum 7\<rparr>)) =
       (AccountMonitor_init 1)\<lparr>balance := PNum 7, status := ''unavailable''\<rparr>
   \<and> get_account_details demo_manager 10 (am_login_id ((AccountMonitor_init 3)\<lparr>balance := PNum 7\<rparr>)) =
       Raises
   \<and> fst (AccountMonitor_update demo_manager 10 ((AccountMonitor_init 3)\<lparr>balance := PNum 7\<rparr>)) =
       (AccountMonitor_init 3)\<lparr>balance := PNum 7, status := ''error''\<rparr>"
  using details_fetch[of demo_manager 10 "AccountMonitor_init 2"
          "Some [(''balance'', PNum 500), (''equity'', PNum 520), (''margin'', PNum 100)]"]
        details_fetch[of demo_manager 10 "(AccountMonitor_init 1)\<lparr>balance := PNum 7\<rparr>" None]
        details_fetch[of demo_manager 10 "(AccountMonitor_init 3)\<lparr>balance := PNum 7\<rparr>" None]
  by (simp add: demo_manager_def AccountMonitor_init_def dict_get_def)

section \<open>The registry\<close>

lemma add_account_present:
  "login_id \<in> fst ` set (monitored_accounts self) \<Longrightarrow> add_account now login_id self = self"
  by (simp add: add_account_def)

lemma add_account_keys:
  "fst ` set (monitored_accounts (add_account now login_id self)) =
     insert login_id (fst ` set (monitored_accounts self))"
  by (auto simp: add_account_def Let_def)

text \<open>
  C7. Adding an account a second time, at whatever instant, gives the state the first
  call gave; removing an account that is not monitored changes nothing. Neither
  operation consults the broker client: each commutes with replacing it.
\<close>

theorem registry_idempotent:
  "add_account now' login_id (add_account now login_id self) = add_account now login_id self
   \<and> (login_id \<notin> fst ` set (monitored_accounts self) \<longrightarrow> remove_account login_id self = self)
   \<and> add_account now login_id (self\<lparr>manager := m\<rparr>) = (add_account now login_id self)\<lparr>manager := m\<rparr>
   \<and> remove_account login_id (self\<lparr>manager := m\<rparr>) = (remove_account login_id self)\<lparr>manager := m\<rparr>"
proof -
  have "login_id \<in> fst ` set (monitored_accounts (add_account now login_id self))"
    by (simp add: add_account_keys)
  then have twice:
    "add_account now' login_id (add_account now login_id self) = add_account now login_id self"
    by (rule add_account_present)
  have absent:
    "login_id \<notin> fst ` set (monitored_accounts self) \<longrightarrow> remove_account login_id self = self"
    by (simp add: remove_account_def)
  have io1: "add_account now login_id (self\<lparr>manager := m\<rparr>) = (add_account now login_id self)\<lparr>manager := m\<rparr>"
    by (simp add: add_account_def Let_def)
  have io2: "remove_account login_id (self\<lparr>manager := m\<rparr>) = (remove_account login_id self)\<lparr>manager := m\<rparr>"
    by (simp add: remove_account_def Let_def)
  from twice absent io1 io2 show ?thesis by blast
qed

theorem registry_idempotent_witness:
  "add_account 5 7 (add_account 0 7 demo_start) = add_account 0 7 demo_start
   \<and> 7 \<notin> fst ` set (monitored_accounts demo_start)
   \<and> remove_account 7 demo_start = demo_start
   \<and> map fst (monitored_accounts (add_account 0 7 demo_start)) = [2, 1, 7]"
  using registry_idempotent[of 5 7 0 demo_start None]
  by (simp add: demo_start_def initialize_def add_account_def RealTimeMonitorSystem_init_def Let_def)

section \<open>Invariants of the registry\<close>

lemma update_all_accounts_eq:
  "manager self = Some mgr \<Longrightarrow>
   update_all_accounts now self =
     (self\<lparr>monitored_accounts :=
             map (\<lambda>(k, m). (k, fst (update_account mgr now (total_updates (stats self)) m)))
               (monitored_accounts self),
           stats := (stats self)
             \<lparr>errors := errors (stats self) +
                length (filter (\<lambda>(k, m). isl (fst (snd (update_account mgr now (total_updates (stats self)) m))))
                  (monitored_accounts self)),
              total_updates := total_updates (stats self) + 1,
              last_update := Some now\<rparr>\<rparr>,
      Some (concat (map (\<lambda>(k, m). case fst (snd (update_account mgr now (total_updates (stats self)) m)) of
                                     Inr (Some f) \<Rightarrow> [f] | _ \<Rightarrow> []) (monitored_accounts self))),
      concat (map (\<lambda>(k, m). snd (snd (update_account mgr now (total_updates (stats self)) m)))
        (monitored_accounts self)))"
  by (simp add: update_all_accounts_def update_loop_eq)

lemma update_all_accounts_none:
  "manager self = None \<Longrightarrow> update_all_accounts now self = (self, None, [])"
  by (simp add: update_all_accounts_def)

lemma tick_keys:
  "map fst (monitored_accounts (fst (update_all_accounts now self))) = map fst (monitored_accounts self)"
proof (cases "manager self")
  case None
  then show ?thesis by (simp add: update_all_accounts_none)
next
  case (Some mgr)
  then show ?thesis by (simp add: update_all_accounts_eq comp_def case_prod_unfold)
qed

lemma tick_manager: "manager (fst (update_all_accounts now self)) = manager self"
  by (cases "manager self") (simp_all add: update_all_accounts_none update_all_accounts_eq)

lemma tick_count:
  "monitored_count (stats (fst (update_all_accounts now self))) = monitored_count (stats self)"
  by (cases "manager self") (simp_all add: update_all_accounts_none update_all_accounts_eq)

lemma tick_total_updates:
  "manager self = Some mgr \<Longrightarrow>
   total_updates (stats (fst (update_all_accounts now self))) = total_updates (stats self) + 1"
  by (simp add: update_all_accounts_eq)

lemma tick_registry_ok:
  "registry_ok self \<Longrightarrow> registry_ok (fst (update_all_accounts now self))"
proof (cases "manager self")
  case None
  assume "registry_ok self"
  with None show ?thesis by (simp add: update_all_accounts_none)
next
  case (Some mgr)
  assume ok: "registry_ok self"
  have keys: "map fst (monitored_accounts (fst (update_all_accounts now self))) = map fst (monitored_accounts self)"
    by (rule tick_keys)
  from ok Some show ?thesis
    unfolding registry_ok_def keys
    by (auto simp add: update_all_accounts_eq list_all_iff update_account_logins)
qed

lemma add_account_registry_ok:
  "registry_ok self \<Longrightarrow> registry_ok (add_account now login_id self)"
  by (auto simp add: registry_ok_def add_account_def Let_def AccountMonitor_init_def
        PositionMonitor_init_def TradeMonitor_init_def)

lemma remove_account_registry_ok:
  "registry_ok self \<Longrightarrow> registry_ok (remove_account login_id self)"
proof -
  assume ok: "registry_ok self"
  let ?P = "\<lambda>(login_id, mons).
          am_login_id (m_account mons) = login_id \<and>
          pm_login_id (m_positions mons) = login_id \<and>
          tm_login_id (m_trades mons) = login_id"
  from ok have d: "distinct (map fst (AList.delete login_id (monitored_accounts self)))"
    by (simp add: registry_ok_def distinct_delete)
  from ok have l: "list_all ?P (AList.delete login_id (monitored_accounts self))"
    by (simp add: registry_ok_def AList.delete_eq list_all_iff)
  from ok d l show ?thesis
    by (simp add: registry_ok_def remove_account_def Let_def)
qed

lemma apply_operation_registry_ok:
  "registry_ok self \<Longrightarrow> registry_ok (apply_operation op self)"
proof (cases op)
  case (Initialize made)
  assume "registry_ok self"
  with Initialize show ?thesis
    by (cases made) (simp_all add: initialize_def registry_ok_def)
next
  case (AddAccount now login_id)
  assume "registry_ok self"
  with AddAccount show ?thesis by (simp add: add_account_registry_ok)
next
  case (RemoveAccount login_id)
  assume "registry_ok self"
  with RemoveAccount show ?thesis by (simp add: remove_account_registry_ok)
next
  case (Tick now)
  assume "registry_ok self"
  with Tick show ?thesis by (simp add: tick_registry_ok)
qed

lemma apply_operations_registry_ok:
  "registry_ok self \<Longrightarrow> registry_ok (apply_operations ops self)"
  by (induction ops arbitrary: self) (simp_all add: apply_operation_registry_ok)

lemma init_registry_ok: "registry_ok (RealTimeMonitorSystem_init interval)"
  by (simp add: registry_ok_def RealTimeMonitorSystem_init_def)

lemma add_account_count:
  "monitored_count (stats self) = length (monitored_accounts self) \<Longrightarrow>
   monitored_count (stats (add_account now login_id self)) =
     length (monitored_accounts (add_account now login_id self))"
  by (simp add: add_account_def Let_def)

lemma remove_account_count:
  "monitored_count (stats self) = length (monitored_accounts self) \<Longrightarrow>
   monitored_count (stats (remove_account login_id self)) =
     length (monitored_accounts (remove_account login_id self))"
  by (simp add: remove_account_def Let_def)

lemma tick_length:
  "length (monitored_accounts (fst (update_all_accounts now self))) = length (monitored_accounts self)"
  using tick_keys[of now self] by (metis length_map)

lemma apply_operation_count:
  "monitored_count (stats self) = length (monitored_accounts self) \<Longrightarrow>
   monitored_count (stats (apply_operation op self)) =
     length (monitored_accounts (apply_operation op self))"
proof (cases op)
  case (Initialize made)
  assume "monitored_count (stats self) = length (monitored_accounts self)"
  with Initialize show ?thesis by (cases made) (simp_all add: initialize_def)
next
  case (AddAccount now login_id)
  assume "monitored_count (stats self) = length (monitored_accounts self)"
  with AddAccount show ?thesis by (simp add: add_account_count)
next
  case (RemoveAccount login_id)
  assume "monitored_count (stats self) = length (monitored_accounts self)"
  with RemoveAccount show ?thesis by (simp add: remove_account_count)
next
  case (Tick now)
  assume "monitored_count (stats self) = length (monitored_accounts self)"
  with Tick show ?thesis by (simp add: tick_count tick_length)
qed

lemma apply_operations_count:
  "monitored_count (stats self) = length (monitored_accounts self) \<Longrightarrow>
   monitored_count (stats (apply_operations ops self)) =
     length (monitored_accounts (apply_operations ops self))"
  by (induction ops arbitrary: self) (simp_all add: apply_operation_count)

text \<open>
  C10. From a fresh engine, after any sequence of initialisations, additions, removals
  and ticks, \<open>monitored_count\<close> is the number of monitored accounts; and from any
  state where it is, it still is after \<open>add_account\<close> and after \<open>remove_account\<close>.
\<close>

theorem monitored_count_invariant:
  "monitored_count (stats (apply_operations ops (RealTimeMonitorSystem_init interval))) =
     length (monitored_accounts (apply_operations ops (RealTimeMonitorSystem_init interval)))
   \<and> (monitored_count (stats self) = length (monitored_accounts self) \<longrightarrow>
        monitored_count (stats (add_account now login_id self)) =
          length (monitored_accounts (add_account now login_id self))
        \<and> monitored_count (stats (remove_account login_id self)) =
          length (monitored_accounts (remove_account login_id self)))"
proof -
  have "monitored_count (stats (RealTimeMonitorSystem_init interval)) =
        length (monitored_accounts (RealTimeMonitorSystem_init interval))"
    by (simp add: RealTimeMonitorSystem_init_def)
  then have "monitored_count (stats (apply_operations ops (RealTimeMonitorSystem_init interval))) =
     length (monitored_accounts (apply_operations ops (RealTimeMonitorSystem_init interval)))"
    by (rule apply_operations_count)
  then show ?thesis
    by (simp add: add_account_count remove_account_count)
qed

theorem monitored_count_invariant_witness:
  "monitored_count (stats demo_start) = 2
   \<and> length (monitored_accounts demo_start) = 2
   \<and> monitored_count (stats (add_account 3 9 demo_start)) = 3
   \<and> length (monitored_accounts (add_account 3 9 demo_start)) = 3
   \<and> monitored_count (stats (remove_account 2 demo_start)) = 1
   \<and> length (monitored_accounts (remove_account 2 demo_start)) = 1"
  using monitored_count_invariant[of "[Initialize (Returns demo_manager), AddAccount 0 2, AddAccount 0 1]" 5
          demo_start 3 9]
        monitored_count_invariant[of "[Initialize (Returns demo_manager), AddAccount 0 2, AddAccount 0 1]" 5
          demo_start 3 2]
  by (simp add: demo_start_def initialize_def add_account_def remove_account_def
        RealTimeMonitorSystem_init_def Let_def)


section \<open>Evaluating the concrete runs\<close>

lemmas demo_defs =
  demo_start_def raw_start_def raw_manager_def demo_manager_def initialize_def add_account_def
  RealTimeMonitorSystem_init_def AccountMonitor_init_def PositionMonitor_init_def
  TradeMonitor_init_def timedelta_days_def Let_def

lemmas tick_defs =
  update_all_accounts_def update_account_def AccountMonitor_update_def
  PositionMonitor_update_def TradeMonitor_update_def PositionMonitor_to_dict_def
  AccountMonitor_to_dict_def dict_get_def

section \<open>The frames of a tick\<close>

text \<open>
  C9. When a tick hands a frame list to the callbacks, every frame in it belongs to a
  monitored account whose details fetch succeeded in that tick; an account whose details
  fetch returned nothing or raised has no frame in the list, whatever its positions and
  trades fetches returned.
\<close>

theorem frames_need_details:
  assumes "update_all_accounts now self = (self', Some frames, calls)"
  shows "\<exists>mgr. manager self = Some mgr \<and>
     (\<forall>f \<in> set frames.
        details_ok mgr now (am_login_id (f_account f)) \<and>
        (\<exists>(k, m) \<in> set (monitored_accounts self). am_login_id (m_account m) = am_login_id (f_account f))) \<and>
     (\<forall>(k, m) \<in> set (monitored_accounts self).
        \<not> details_ok mgr now (am_login_id (m_account m)) \<longrightarrow>
        (\<forall>f \<in> set frames. am_login_id (f_account f) \<noteq> am_login_id (m_account m)))"
proof (cases "manager self")
  case None
  with assms show ?thesis by (simp add: update_all_accounts_none)
next
  case (Some mgr)
  let ?u = "total_updates (stats self)"
  from assms Some have frames:
    "frames = concat (map (\<lambda>(k, m). case fst (snd (update_account mgr now ?u m)) of
                                     Inr (Some f) \<Rightarrow> [f] | _ \<Rightarrow> []) (monitored_accounts self))"
    by (simp add: update_all_accounts_eq)
  have each: "details_ok mgr now (am_login_id (f_account f)) \<and>
        (\<exists>(k, m) \<in> set (monitored_accounts self). am_login_id (m_account m) = am_login_id (f_account f))"
    if "f \<in> set frames" for f
  proof -
    from that frames obtain k m where km: "(k, m) \<in> set (monitored_accounts self)"
      and f: "fst (snd (update_account mgr now ?u m)) = Inr (Some f)"
      by (auto split: sum.splits option.splits)
    from update_account_frame[OF f] update_account_logins[of mgr now ?u m]
    have "details_ok mgr now (am_login_id (m_account m))"
      and "am_login_id (f_account f) = am_login_id (m_account m)" by simp_all
    with km show ?thesis by force
  qed
  have other: "\<forall>(k, m) \<in> set (monitored_accounts self).
        \<not> details_ok mgr now (am_login_id (m_account m)) \<longrightarrow>
        (\<forall>f \<in> set frames. am_login_id (f_account f) \<noteq> am_login_id (m_account m))"
  proof (clarify)
    fix k m f
    assume no: "\<not> details_ok mgr now (am_login_id (m_account m))"
      and f: "f \<in> set frames"
      and same: "am_login_id (f_account f) = am_login_id (m_account m)"
    from each[OF f] have "details_ok mgr now (am_login_id (f_account f))" by simp
    with no same show False by simp
  qed
  from each other Some show ?thesis by blast
qed

lemma demo_tick_frames:
  "map (\<lambda>f. am_login_id (f_account f)) (the (fst (snd (update_all_accounts 10 demo_start)))) = [2]
   \<and> fst (snd (update_all_accounts 10 demo_start)) \<noteq> None"
  by (simp add: demo_defs tick_defs)

theorem frames_need_details_witness:
  "manager demo_start = Some demo_manager
   \<and> map fst (monitored_accounts demo_start) = [2, 1]
   \<and> map (\<lambda>f. am_login_id (f_account f)) (the (fst (snd (update_all_accounts 10 demo_start)))) = [2]
   \<and> details_ok demo_manager 10 2
   \<and> \<not> details_ok demo_manager 10 1
   \<and> get_open_positions demo_manager 10 1 =
       Returns (Some [PyDict [(''symbol'', PStr ''EURUSD''), (''volume'', PNum 1), (''type'', PNum 0)]])"
proof -
  have ev: "update_all_accounts 10 demo_start =
      (fst (update_all_accounts 10 demo_start),
       Some (the (fst (snd (update_all_accounts 10 demo_start)))),
       snd (snd (update_all_accounts 10 demo_start)))"
    using demo_tick_frames by (metis option.collapse prod.collapse)
  from frames_need_details[OF ev] demo_tick_frames show ?thesis
    by (simp add: demo_defs details_ok_def)
qed

section \<open>The error counter\<close>

text \<open>
  C2, as the code has it. The monitors handle their own failures: an empty result or
  an exception of a details, positions or trades fetch leaves the error counter alone.
  A tick adds one to the counter for every account whose frame construction raises,
  and for nothing else; when no frame construction raises the counter is unchanged.
\<close>

theorem errors_after_tick:
  assumes "manager self = Some mgr"
  shows "errors (stats (fst (update_all_accounts now self))) =
           errors (stats self) +
           length (filter (\<lambda>(k, m). frame_raises mgr now m) (monitored_accounts self))
     \<and> ((\<forall>(k, m) \<in> set (monitored_accounts self). \<not> frame_raises mgr now m) \<longrightarrow>
          errors (stats (fst (update_all_accounts now self))) = errors (stats self))"
proof -
  have eq: "(\<lambda>(k, m). isl (fst (snd (update_account mgr now u m)))) = (\<lambda>(k, m). frame_raises mgr now m)"
    for u
    by (simp add: update_account_raises frame_raises_def)
  from assms have first: "errors (stats (fst (update_all_accounts now self))) =
           errors (stats self) +
           length (filter (\<lambda>(k, m). frame_raises mgr now m) (monitored_accounts self))"
    by (simp add: update_all_accounts_eq eq)
  have "filter (\<lambda>(k, m). frame_raises mgr now m) (monitored_accounts self) = []"
    if "\<forall>(k, m) \<in> set (monitored_accounts self). \<not> frame_raises mgr now m"
    using that by (auto simp: filter_empty_conv)
  with first show ?thesis by simp
qed

text \<open>
  C2 as stated fails: the broker has no details for account 1 and answers normally for
  account 2; after the tick account 1 is \<open>unavailable\<close>, account 2 is \<open>active\<close>,
  and the error counter is still 0.
\<close>

theorem errors_counterexample:
  "get_account_details demo_manager 10 1 = Returns None
   \<and> details_ok demo_manager 10 2
   \<and> map (\<lambda>(k, m). (k, status (m_account m))) (monitored_accounts (fst (update_all_accounts 10 demo_start)))
       = [(2, ''active''), (1, ''unavailable'')]
   \<and> errors (stats demo_start) = 0
   \<and> errors (stats (fst (update_all_accounts 10 demo_start))) = 0
   \<and> errors (stats (fst (update_all_accounts 10 demo_start))) \<noteq> errors (stats demo_start) + 1"
  by (simp add: demo_defs tick_defs details_ok_def)


theorem errors_after_tick_witness:
  "manager demo_start = Some demo_manager
   \<and> errors (stats demo_start) = 0
   \<and> errors (stats (fst (update_all_accounts 10 demo_start))) = 0
   \<and> manager raw_start = Some raw_manager
   \<and> errors (stats raw_start) = 0
   \<and> map (\<lambda>(k, m). (k, frame_raises raw_manager 10 m)) (monitored_accounts raw_start)
       = [(2, True), (1, False)]
   \<and> errors (stats (fst (update_all_accounts 10 raw_start))) = 1"
proof -
  have m1: "manager demo_start = Some demo_manager" by (simp add: demo_defs)
  have m2: "manager raw_start = Some raw_manager" by (simp add: demo_defs)
  from errors_after_tick[OF m1, of 10] errors_after_tick[OF m2, of 10] show ?thesis
    by (simp add: demo_defs frame_raises_def details_ok_def PositionMonitor_update_def)
qed

section \<open>The cadence of the closed-trades fetch\<close>

lemma count_key:
  "distinct (map fst accs) \<Longrightarrow> k \<in> fst ` set accs \<Longrightarrow>
   length (filter (\<lambda>(k', m). k' = k) accs) = 1"
proof (induction accs)
  case Nil
  then show ?case by simp
next
  case (Cons a accs)
  obtain k' m where a: "a = (k', m)" by (cases a)
  show ?case
  proof (cases "k' = k")
    case True
    with Cons.prems a have "k \<notin> fst ` set accs" by simp
    then have "filter (\<lambda>(k', m). k' = k) accs = []"
      by (fastforce simp: filter_empty_conv image_iff)
    with True a show ?thesis by simp
  next
    case False
    with Cons a show ?thesis by auto
  qed
qed

lemma trades_fetches_calls:
  "list_all (\<lambda>(k, m). tm_login_id (m_trades m) = k) accs \<Longrightarrow>
   trades_fetches login_id (concat (map (\<lambda>(k, m). snd (snd (update_account mgr now u m))) accs)) =
     (if u mod 5 = 0 then length (filter (\<lambda>(k, m). k = login_id) accs) else 0)"
  by (induction accs) (auto simp: trades_fetches_def update_account_calls)

lemma tick_trades_fetches:
  assumes "manager self = Some mgr" "registry_ok self"
    "login_id \<in> fst ` set (monitored_accounts self)"
  shows "trades_fetches login_id (snd (snd (update_all_accounts now self))) =
     (if total_updates (stats self) mod 5 = 0 then 1 else 0)"
proof -
  from assms(2) have l: "list_all (\<lambda>(k, m). tm_login_id (m_trades m) = k) (monitored_accounts self)"
    by (auto simp: registry_ok_def list_all_iff)
  from assms(2,3) have "length (filter (\<lambda>(k, m). k = login_id) (monitored_accounts self)) = 1"
    by (simp add: registry_ok_def count_key)
  with assms(1) trades_fetches_calls[OF l] show ?thesis
    by (simp add: update_all_accounts_eq)
qed

lemma tick_keys_set:
  "fst ` set (monitored_accounts (fst (update_all_accounts now self))) = fst ` set (monitored_accounts self)"
  using tick_keys[of now self] by (metis list.set_map)

lemma run_ticks_log:
  "manager self = Some mgr \<Longrightarrow> registry_ok self \<Longrightarrow>
   login_id \<in> fst ` set (monitored_accounts self) \<Longrightarrow>
   length (snd (run_ticks ts self)) = length ts \<and>
   (\<forall>i < length ts. trades_fetches login_id (snd (run_ticks ts self) ! i) =
      (if (total_updates (stats self) + i) mod 5 = 0 then 1 else 0))"
proof (induction ts arbitrary: self)
  case Nil
  then show ?case by simp
next
  case (Cons t ts)
  let ?s1 = "fst (update_all_accounts t self)"
  let ?calls = "snd (snd (update_all_accounts t self))"
  have unfold: "snd (run_ticks (t # ts) self) = ?calls # snd (run_ticks ts ?s1)"
    by (simp add: case_prod_unfold Let_def)
  have m1: "manager ?s1 = Some mgr" using Cons.prems(1) by (simp add: tick_manager)
  have r1: "registry_ok ?s1" using Cons.prems(2) by (rule tick_registry_ok)
  have k1: "login_id \<in> fst ` set (monitored_accounts ?s1)"
    using Cons.prems(3) by (simp add: tick_keys_set)
  have u1: "total_updates (stats ?s1) = total_updates (stats self) + 1"
    using Cons.prems(1) by (rule tick_total_updates)
  from Cons.IH[OF m1 r1 k1] u1
  have len: "length (snd (run_ticks ts ?s1)) = length ts"
    and rest: "\<forall>i < length ts. trades_fetches login_id (snd (run_ticks ts ?s1) ! i) =
      (if (total_updates (stats self) + Suc i) mod 5 = 0 then 1 else 0)"
    by simp_all
  have first: "trades_fetches login_id ?calls = (if total_updates (stats self) mod 5 = 0 then 1 else 0)"
    using Cons.prems by (rule tick_trades_fetches)
  have "trades_fetches login_id (snd (run_ticks (t # ts) self) ! i) =
      (if (total_updates (stats self) + i) mod 5 = 0 then 1 else 0)" if "i < length (t # ts)" for i
  proof (cases i)
    case 0
    with first unfold show ?thesis by simp
  next
    case (Suc j)
    with that rest unfold show ?thesis by simp
  qed
  with len unfold show ?case by simp
qed

lemma sum_every_fifth: "(\<Sum>i<k. if i mod 5 = 0 then 1 else 0) = (k + 4) div (5::nat)"
proof (induction k)
  case 0
  show ?case by simp
next
  case (Suc k)
  then show ?case by (simp; presburger)
qed

lemma ceiling_fifth: "nat \<lceil>real k / 5\<rceil> = (k + 4) div 5"
proof -
  have "\<lceil>real k / 5\<rceil> = \<lceil>real_of_int (int k) / real_of_int 5\<rceil>" by simp
  also have "\<dots> = - (- int k div 5)" by (rule ceiling_divide_eq_div)
  also have "\<dots> = int ((k + 4) div 5)" by (simp add: zdiv_int)
  finally show ?thesis by simp
qed


lemma run_ticks_append:
  "fst (run_ticks (xs @ ys) self) = fst (run_ticks ys (fst (run_ticks xs self)))"
  by (induction xs arbitrary: self) (simp_all add: case_prod_unfold Let_def)

lemma run_ticks_manager: "manager (fst (run_ticks ts self)) = manager self"
  by (induction ts arbitrary: self) (simp_all add: case_prod_unfold Let_def tick_manager)

lemma run_ticks_total_updates:
  "manager self = Some mgr \<Longrightarrow>
   total_updates (stats (fst (run_ticks ts self))) = total_updates (stats self) + length ts"
proof (induction ts arbitrary: self)
  case Nil
  show ?case by simp
next
  case (Cons t ts)
  let ?s1 = "fst (update_all_accounts t self)"
  have m1: "manager ?s1 = Some mgr" using Cons.prems by (simp add: tick_manager)
  from Cons.IH[OF m1] tick_total_updates[OF Cons.prems, of t] show ?case
    by (simp add: case_prod_unfold Let_def)
qed

lemma tick_trades_kept:
  "total_updates (stats self) mod 5 \<noteq> 0 \<Longrightarrow>
   stored_trades (fst (update_all_accounts now self)) = stored_trades self"
proof (cases "manager self")
  case None
  then show ?thesis by (simp add: update_all_accounts_none)
next
  case (Some mgr)
  assume "total_updates (stats self) mod 5 \<noteq> 0"
  with Some show ?thesis
    by (simp add: update_all_accounts_eq stored_trades_def update_account_trades_kept
          case_prod_unfold comp_def)
qed

lemma update_account_reuse:
  "fst (snd (update_account mgr now u m)) = Inr (Some f) \<Longrightarrow> u mod 5 \<noteq> 0 \<Longrightarrow>
     am_login_id (f_account f) = am_login_id (m_account m) \<and>
     trade_count (f_trades_summary f) = length (trades (m_trades m)) \<and>
     ts_last_update (f_trades_summary f) = tm_last_update (m_trades m)"
  using update_account_frame[of mgr now u m f] update_account_logins[of mgr now u m]
  by (auto simp add: update_account_def Let_def split: prod.splits option.splits sum.splits)

lemma tick_frames_reuse:
  assumes "manager self = Some mgr" and "total_updates (stats self) mod 5 \<noteq> 0"
    and "registry_ok self" and "f \<in> set (tick_frames now self)"
  shows "\<exists>(k, m) \<in> set (monitored_accounts self).
     am_login_id (f_account f) = k \<and>
     trade_count (f_trades_summary f) = length (trades (m_trades m)) \<and>
     ts_last_update (f_trades_summary f) = tm_last_update (m_trades m)"
proof -
  let ?u = "total_updates (stats self)"
  from assms(1,4) obtain k m where km: "(k, m) \<in> set (monitored_accounts self)"
    and f: "fst (snd (update_account mgr now ?u m)) = Inr (Some f)"
    by (auto simp: tick_frames_def update_all_accounts_eq split: sum.splits option.splits)
  from assms(3) km have "am_login_id (m_account m) = k"
    by (auto simp: registry_ok_def list_all_iff)
  with update_account_reuse[OF f assms(2)] km show ?thesis by auto
qed

lemma run_ticks_registry_ok: "registry_ok self \<Longrightarrow> registry_ok (fst (run_ticks ts self))"
  by (induction ts arbitrary: self) (simp_all add: case_prod_unfold Let_def tick_registry_ok)

lemma TradeMonitor_update_trades:
  "trades (fst (TradeMonitor_update mgr now t)) = fetched_trades mgr now (tm_login_id t) t"
  by (cases "get_closed_trades mgr now (tm_login_id t) (from_date t)")
     (auto simp: TradeMonitor_update_def fetched_trades_def split: option.splits)

lemma update_account_fetched:
  "u mod 5 = 0 \<Longrightarrow>
   trades (m_trades (fst (update_account mgr now u m))) =
     fetched_trades mgr now (tm_login_id (m_trades m)) (m_trades m)"
  using TradeMonitor_update_trades[of mgr now "m_trades m"]
  by (auto simp add: update_account_def Let_def split: prod.splits option.splits sum.splits)

lemma tick_trades_fetched:
  assumes "manager self = Some mgr" and "registry_ok self"
    and "total_updates (stats self) mod 5 = 0"
  shows "map (\<lambda>(k, m). (k, trades (m_trades m))) (monitored_accounts (fst (update_all_accounts now self))) =
         map (\<lambda>(k, m). (k, fetched_trades mgr now k (m_trades m))) (monitored_accounts self)"
proof -
  let ?u = "total_updates (stats self)"
  have "(k, trades (m_trades (fst (update_account mgr now ?u m)))) =
        (k, fetched_trades mgr now k (m_trades m))"
    if "(k, m) \<in> set (monitored_accounts self)" for k m
  proof -
    from assms(2) that have "tm_login_id (m_trades m) = k"
      by (auto simp: registry_ok_def list_all_iff)
    with update_account_fetched[OF assms(3), of mgr now m] show ?thesis by simp
  qed
  then have "map (\<lambda>(k, m). (k, trades (m_trades (fst (update_account mgr now ?u m))))) (monitored_accounts self) =
         map (\<lambda>(k, m). (k, fetched_trades mgr now k (m_trades m))) (monitored_accounts self)"
    by (intro map_cong) auto
  with assms(1) show ?thesis
    by (simp add: update_all_accounts_eq comp_def case_prod_unfold)
qed

text \<open>
  C4. For an engine with a broker client, a well-formed registry and
  \<open>total_updates = 0\<close>, and for every monitored account: over the ticks \<open>ts\<close> the
  counter before tick \<open>i\<close> is \<open>i\<close>; tick \<open>i\<close> fetches the closed trades of the
  account once when \<open>i mod 5 = 0\<close> and not at all otherwise, so that the fetches number
  the ceiling of \<open>length ts / 5\<close>; and a tick with \<open>i mod 5 \<noteq> 0\<close> leaves every stored
  trade monitor as it was and reports, in every frame it hands out, the trades the
  monitor of that account held before the tick: their number and their timestamp. A
  tick with \<open>i mod 5 = 0\<close> leaves in every trade monitor what the broker answered to
  the fetch for its account.
\<close>

theorem trades_cadence:
  assumes "manager self = Some mgr" and "total_updates (stats self) = 0"
    and "registry_ok self" and "login_id \<in> fst ` set (monitored_accounts self)"
  shows "length (snd (run_ticks ts self)) = length ts
     \<and> (\<forall>i < length ts.
          total_updates (stats (fst (run_ticks (take i ts) self))) = i
          \<and> fst (run_ticks (take (Suc i) ts) self) =
              fst (update_all_accounts (ts ! i) (fst (run_ticks (take i ts) self)))
          \<and> trades_fetches login_id (snd (run_ticks ts self) ! i) = (if i mod 5 = 0 then 1 else 0))
     \<and> sum_list (map (trades_fetches login_id) (snd (run_ticks ts self))) = nat \<lceil>real (length ts) / 5\<rceil>
     \<and> (\<forall>i < length ts. i mod 5 \<noteq> 0 \<longrightarrow>
          stored_trades (fst (run_ticks (take (Suc i) ts) self)) =
          stored_trades (fst (run_ticks (take i ts) self))
          \<and> (\<forall>f \<in> set (tick_frames (ts ! i) (fst (run_ticks (take i ts) self))).
               \<exists>(k, m) \<in> set (monitored_accounts (fst (run_ticks (take i ts) self))).
                 am_login_id (f_account f) = k \<and>
                 trade_count (f_trades_summary f) = length (trades (m_trades m)) \<and>
                 ts_last_update (f_trades_summary f) = tm_last_update (m_trades m)))
     \<and> (\<forall>i < length ts. i mod 5 = 0 \<longrightarrow>
          map (\<lambda>(k, m). (k, trades (m_trades m)))
            (monitored_accounts (fst (run_ticks (take (Suc i) ts) self))) =
          map (\<lambda>(k, m). (k, fetched_trades mgr (ts ! i) k (m_trades m)))
            (monitored_accounts (fst (run_ticks (take i ts) self))))"
proof -
  let ?log = "snd (run_ticks ts self)"
  from run_ticks_log[OF assms(1,3,4), of ts] assms(2)
  have len: "length ?log = length ts"
    and each: "\<forall>i < length ts. trades_fetches login_id (?log ! i) = (if i mod 5 = 0 then 1 else 0)"
    by simp_all
  have counter: "total_updates (stats (fst (run_ticks (take i ts) self))) = i" if "i < length ts" for i
    using run_ticks_total_updates[OF assms(1), of "take i ts"] assms(2) that by simp
  have step: "fst (run_ticks (take (Suc i) ts) self) =
              fst (update_all_accounts (ts ! i) (fst (run_ticks (take i ts) self)))"
    if "i < length ts" for i
  proof -
    from that have "take (Suc i) ts = take i ts @ [ts ! i]" by (rule take_Suc_conv_app_nth)
    then show ?thesis by (simp add: run_ticks_append case_prod_unfold Let_def)
  qed
  have "sum_list (map (trades_fetches login_id) ?log) =
        (\<Sum>i = 0..<length ?log. trades_fetches login_id (?log ! i))"
    by (simp add: sum_list_sum_nth)
  also have "\<dots> = (\<Sum>i = 0..<length ts. if i mod 5 = 0 then 1 else 0)"
    using len each by (intro sum.cong) simp_all
  also have "\<dots> = (length ts + 4) div 5"
    using sum_every_fifth[of "length ts"] by (simp add: lessThan_atLeast0)
  finally have total: "sum_list (map (trades_fetches login_id) ?log) = nat \<lceil>real (length ts) / 5\<rceil>"
    by (simp add: ceiling_fifth)
  have kept: "stored_trades (fst (run_ticks (take (Suc i) ts) self)) =
          stored_trades (fst (run_ticks (take i ts) self))"
    if "i < length ts" "i mod 5 \<noteq> 0" for i
  proof -
    let ?s = "fst (run_ticks (take i ts) self)"
    from counter[OF that(1)] that(2)
    have "stored_trades (fst (update_all_accounts (ts ! i) ?s)) = stored_trades ?s"
      by (intro tick_trades_kept) simp
    with step[OF that(1)] show ?thesis by simp
  qed
  have reuse: "\<exists>(k, m) \<in> set (monitored_accounts (fst (run_ticks (take i ts) self))).
                 am_login_id (f_account f) = k \<and>
                 trade_count (f_trades_summary f) = length (trades (m_trades m)) \<and>
                 ts_last_update (f_trades_summary f) = tm_last_update (m_trades m)"
    if "i < length ts" "i mod 5 \<noteq> 0"
      and "f \<in> set (tick_frames (ts ! i) (fst (run_ticks (take i ts) self)))" for i f
  proof -
    let ?s = "fst (run_ticks (take i ts) self)"
    have m: "manager ?s = Some mgr" using assms(1) by (simp add: run_ticks_manager)
    have r: "registry_ok ?s" using assms(3) by (rule run_ticks_registry_ok)
    from counter[OF that(1)] that(2) have u: "total_updates (stats ?s) mod 5 \<noteq> 0" by simp
    from tick_frames_reuse[OF m u r that(3)] show ?thesis .
  qed
  have fetched: "map (\<lambda>(k, m). (k, trades (m_trades m)))
            (monitored_accounts (fst (run_ticks (take (Suc i) ts) self))) =
          map (\<lambda>(k, m). (k, fetched_trades mgr (ts ! i) k (m_trades m)))
            (monitored_accounts (fst (run_ticks (take i ts) self)))"
    if "i < length ts" "i mod 5 = 0" for i
  proof -
    let ?s = "fst (run_ticks (take i ts) self)"
    have m: "manager ?s = Some mgr" using assms(1) by (simp add: run_ticks_manager)
    have r: "registry_ok ?s" using assms(3) by (rule run_ticks_registry_ok)
    from counter[OF that(1)] that(2) have u: "total_updates (stats ?s) mod 5 = 0" by simp
    from tick_trades_fetched[OF m r u, of "ts ! i"] step[OF that(1)] show ?thesis by simp
  qed
  from len each counter step total kept reuse fetched show ?thesis by simp
qed

lemma demo_second_tick:
  "map (\<lambda>f. (am_login_id (f_account f), trade_count (f_trades_summary f)))
     (tick_frames 5 (fst (run_ticks [0] demo_start))) = [(2, 2)]
   \<and> map (\<lambda>(k, m). (k, length (trades (m_trades m)))) (monitored_accounts (fst (run_ticks [0] demo_start)))
       = [(2, 2), (1, 2)]
   \<and> map (\<lambda>(k, m). (k, length (trades (m_trades m)))) (monitored_accounts demo_start)
       = [(2, 0), (1, 0)]"
  by (simp add: demo_defs tick_defs tick_frames_def)


theorem trades_cadence_witness:
  "manager demo_start = Some demo_manager
   \<and> total_updates (stats demo_start) = 0
   \<and> registry_ok demo_start
   \<and> 1 \<in> fst ` set (monitored_accounts demo_start)
   \<and> length (snd (run_ticks [0, 5, 10, 15, 20, 25, 30, 35, 40, 45, 50] demo_start)) = 11
   \<and> sum_list (map (trades_fetches 1) (snd (run_ticks [0, 5, 10, 15, 20, 25, 30, 35, 40, 45, 50] demo_start))) = 3
   \<and> trades_fetches 1 (snd (run_ticks [0, 5, 10, 15, 20, 25, 30, 35, 40, 45, 50] demo_start) ! 0) = 1
   \<and> trades_fetches 1 (snd (run_ticks [0, 5, 10, 15, 20, 25, 30, 35, 40, 45, 50] demo_start) ! 4) = 0
   \<and> trades_fetches 1 (snd (run_ticks [0, 5, 10, 15, 20, 25, 30, 35, 40, 45, 50] demo_start) ! 5) = 1
   \<and> trades_fetches 1 (snd (run_ticks [0, 5, 10, 15, 20, 25, 30, 35, 40, 45, 50] demo_start) ! 10) = 1
   \<and> stored_trades (fst (run_ticks [0, 5] demo_start)) = stored_trades (fst (run_ticks [0] demo_start))
   \<and> map (\<lambda>(k, m). (k, length (trades (m_trades m)))) (monitored_accounts (fst (run_ticks [0] demo_start)))
       = [(2, 2), (1, 2)]
   \<and> map (\<lambda>f. (am_login_id (f_account f), trade_count (f_trades_summary f)))
         (tick_frames 5 (fst (run_ticks [0] demo_start))) = [(2, 2)]"
proof -
  let ?ts = "[0, 5, 10, 15, 20, 25, 30, 35, 40, 45, 50] :: int list"
  have m: "manager demo_start = Some demo_manager" by (simp add: demo_defs)
  have u: "total_updates (stats demo_start) = 0" by (simp add: demo_defs)
  have r: "registry_ok demo_start" by (simp add: demo_defs registry_ok_def)
  have k: "1 \<in> fst ` set (monitored_accounts demo_start)" by (simp add: demo_defs)
  have c: "nat \<lceil>real (length ?ts) / 5\<rceil> = 3" by (simp add: ceiling_fifth)
  note t = trades_cadence[OF m u r k, of ?ts]
  from t have e0: "trades_fetches 1 (snd (run_ticks ?ts demo_start) ! 0) = 1" by simp
  from t have e4: "trades_fetches 1 (snd (run_ticks ?ts demo_start) ! 4) = 0" by simp
  from t have e5: "trades_fetches 1 (snd (run_ticks ?ts demo_start) ! 5) = 1" by simp
  from t have e10: "trades_fetches 1 (snd (run_ticks ?ts demo_start) ! 10) = 1" by simp
  from t c have s: "sum_list (map (trades_fetches 1) (snd (run_ticks ?ts demo_start))) = 3"
    by simp
  from t have l: "length (snd (run_ticks ?ts demo_start)) = 11" by simp
  have "(1::nat) < length ?ts" and "(1::nat) mod 5 \<noteq> 0" by simp_all
  with t have "stored_trades (fst (run_ticks (take (Suc 1) ?ts) demo_start)) =
          stored_trades (fst (run_ticks (take 1 ?ts) demo_start))" by blast
  then have st: "stored_trades (fst (run_ticks [0, 5] demo_start)) =
          stored_trades (fst (run_ticks [0] demo_start))" by simp
  from m u r k l s e0 e4 e5 e10 st demo_second_tick show ?thesis by simp
qed

section \<open>Facts about the symbol query\<close>

lemma positions_by_symbol_from_raises:
  "\<not> list_all is_mapping ps \<Longrightarrow> positions_by_symbol_from symbol i ps = Inl AttributeError"
proof (induction ps arbitrary: i)
  case Nil
  then show ?case by simp
next
  case (Cons p ps)
  show ?case
  proof (cases p)
    case (PyDict d)
    with Cons.prems have "\<not> list_all is_mapping ps" by simp
    from Cons.IH[OF this, of "Suc i"] PyDict show ?thesis by simp
  next
    case PyOther
    then show ?thesis by simp
  qed
qed

lemma positions_by_symbol_from_returns:
  "list_all is_mapping ps \<Longrightarrow> \<exists>refs. positions_by_symbol_from symbol i ps = Inr refs"
proof (induction ps arbitrary: i)
  case Nil
  then show ?case by simp
next
  case (Cons p ps)
  show ?case
  proof (cases p)
    case (PyDict d)
    with Cons.prems have "list_all is_mapping ps" by simp
    from Cons.IH[OF this, of "Suc i"] PyDict show ?thesis by auto
  next
    case PyOther
    with Cons.prems show ?thesis by simp
  qed
qed

lemma tag_refs:
  "positions_by_symbol_from symbol (length pre) ps = Inr refs \<Longrightarrow>
   tag_positions login_id refs (pre @ ps) acc =
     (pre @ map (tag_matching login_id symbol) ps,
      acc @ map (tag login_id) (matching symbol ps))"
proof (induction ps arbitrary: pre refs acc)
  case Nil
  then show ?case by simp
next
  case (Cons p ps)
  show ?case
  proof (cases p)
    case PyOther
    with Cons.prems show ?thesis by simp
  next
    case (PyDict d)
    from Cons.prems PyDict obtain refs' where
      rest: "positions_by_symbol_from symbol (length (pre @ [p])) ps = Inr refs'"
      and refs: "refs = (if dict_get d ''symbol'' PNone = symbol then (length pre, d) # refs' else refs')"
      by (auto split: sum.splits)
    show ?thesis
    proof (cases "dict_get d ''symbol'' PNone = symbol")
      case True
      from rest have rest': "positions_by_symbol_from symbol (length (pre @ [PyDict (tag login_id d)])) ps = Inr refs'"
        by simp
      from Cons.IH[OF rest', of "acc @ [tag login_id d]"] True refs PyDict
      show ?thesis by (simp add: tag_def Let_def)
    next
      case False
      from Cons.IH[OF rest, of acc] False refs PyDict
      show ?thesis by simp
    qed
  qed
qed

lemma tag_refs0:
  "positions_by_symbol_from symbol 0 ps = Inr refs \<Longrightarrow>
   tag_positions login_id refs ps acc =
     (map (tag_matching login_id symbol) ps, acc @ map (tag login_id) (matching symbol ps))"
  using tag_refs[of symbol "[]" ps refs login_id acc] by simp

lemma positions_loop_eq:
  "positions_loop symbol accs acc =
     (map (tag_entry symbol) (takeWhile readable accs) @ dropWhile readable accs,
      if list_all readable accs
      then Inr (acc @ concat (map (\<lambda>(login_id, mons).
                  map (tag login_id) (matching symbol (positions (m_positions mons)))) accs))
      else Inl AttributeError)"
proof (induction accs arbitrary: acc)
  case Nil
  show ?case by simp
next
  case (Cons a accs)
  obtain k m where a: "a = (k, m)" by (cases a)
  show ?case
  proof (cases "readable a")
    case False
    with a have "positions_by_symbol_from symbol 0 (positions (m_positions m)) = Inl AttributeError"
      by (simp add: readable_def positions_by_symbol_from_raises)
    with False a show ?thesis
      by (simp add: PositionMonitor_get_positions_by_symbol_def)
  next
    case True
    with a obtain refs where
      refs: "positions_by_symbol_from symbol 0 (positions (m_positions m)) = Inr refs"
      using positions_by_symbol_from_returns[of "positions (m_positions m)" symbol 0]
      by (auto simp: readable_def)
    from tag_refs0[OF refs, of k acc] refs True a
      Cons.IH[of "acc @ map (tag k) (matching symbol (positions (m_positions m)))"]
    show ?thesis
      by (simp add: PositionMonitor_get_positions_by_symbol_def tag_entry_def)
  qed
qed

lemma get_positions_by_symbol_eq:
  "get_positions_by_symbol symbol self =
     (self\<lparr>monitored_accounts :=
         map (tag_entry (PStr symbol)) (takeWhile readable (monitored_accounts self)) @
         dropWhile readable (monitored_accounts self)\<rparr>,
      if all_mappings self then Inr (positions_with_symbol self symbol) else Inl AttributeError)"
  by (simp add: get_positions_by_symbol_def positions_loop_eq all_mappings_def
        positions_with_symbol_def)


section \<open>Evaluating the queries, and what tagging keeps\<close>

lemmas query_defs =
  demo_state_def get_positions_by_symbol_def PositionMonitor_get_positions_by_symbol_def
  get_total_exposure_by_symbol_def PositionMonitor_get_total_volume_by_symbol_def
  volume_get_def exposure_get_def whole_number_ops_def whole_def

lemma dict_get_tag_login: "dict_get (tag k d) ''login_id'' x = PNum (of_int k)"
  by (simp add: dict_get_def tag_def update_conv')

lemma dict_get_tag_symbol: "dict_get (tag k d) ''symbol'' x = dict_get d ''symbol'' x"
  by (simp add: dict_get_def tag_def update_conv')

lemma matching_symbol: "d \<in> set (matching symbol ps) \<Longrightarrow> dict_get d ''symbol'' PNone = symbol"
proof (induction ps)
  case Nil
  then show ?case by simp
next
  case (Cons p ps)
  then show ?case by (cases p) (auto split: if_splits)
qed

lemma tag_matching_none: "matching symbol ps = [] \<Longrightarrow> map (tag_matching k symbol) ps = ps"
proof (induction ps)
  case Nil
  then show ?case by simp
next
  case (Cons p ps)
  then show ?case by (cases p) (auto split: if_splits)
qed

lemma tag_entry_kept:
  "m_account (snd (tag_entry symbol a)) = m_account (snd a)
   \<and> m_trades (snd (tag_entry symbol a)) = m_trades (snd a)
   \<and> fst (tag_entry symbol a) = fst a
   \<and> pm_login_id (m_positions (snd (tag_entry symbol a))) = pm_login_id (m_positions (snd a))
   \<and> pm_last_update (m_positions (snd (tag_entry symbol a))) = pm_last_update (m_positions (snd a))
   \<and> length (positions (m_positions (snd (tag_entry symbol a)))) = length (positions (m_positions (snd a)))"
  by (cases a) (simp add: tag_entry_def)

section \<open>The order of the symbol query\<close>

text \<open>
  C6, as the code has it. When every stored position is a mapping,
  \<open>get_positions_by_symbol\<close> returns the stored positions whose \<open>symbol\<close> entry is the
  symbol asked for, each with the login of its account written under \<open>login_id\<close>,
  account by account in the order of the registry (the order in which the accounts were
  added) and in stored order within an account; otherwise it raises. The logins read
  off the result are those of the registry, each repeated once per matching position.
\<close>

theorem positions_by_symbol_order:
  "snd (get_positions_by_symbol symbol self) =
     (if all_mappings self then Inr (positions_with_symbol self symbol) else Inl AttributeError)
   \<and> (\<forall>p \<in> set (positions_with_symbol self symbol).
        dict_get p ''symbol'' PNone = PStr symbol \<and>
        (\<exists>k \<in> fst ` set (monitored_accounts self). dict_get p ''login_id'' PNone = PNum (of_int k)))
   \<and> map (\<lambda>p. dict_get p ''login_id'' PNone) (positions_with_symbol self symbol) =
       concat (map (\<lambda>(k, m). replicate (length (matching (PStr symbol) (positions (m_positions m))))
                                  (PNum (of_int k)))
         (monitored_accounts self))"
proof -
  have first: "snd (get_positions_by_symbol symbol self) =
     (if all_mappings self then Inr (positions_with_symbol self symbol) else Inl AttributeError)"
    by (simp add: get_positions_by_symbol_eq)
  have second: "dict_get p ''symbol'' PNone = PStr symbol \<and>
        (\<exists>k \<in> fst ` set (monitored_accounts self). dict_get p ''login_id'' PNone = PNum (of_int k))"
    if "p \<in> set (positions_with_symbol self symbol)" for p
  proof -
    from that obtain k m d where km: "(k, m) \<in> set (monitored_accounts self)"
      and d: "d \<in> set (matching (PStr symbol) (positions (m_positions m)))" and p: "p = tag k d"
      by (auto simp: positions_with_symbol_def)
    from matching_symbol[OF d] p have "dict_get p ''symbol'' PNone = PStr symbol"
      by (simp add: dict_get_tag_symbol)
    moreover from p have "dict_get p ''login_id'' PNone = PNum (of_int k)"
      by (simp add: dict_get_tag_login)
    moreover from km have "k \<in> fst ` set (monitored_accounts self)" by force
    ultimately show ?thesis by blast
  qed
  have third: "map (\<lambda>p. dict_get p ''login_id'' PNone) (positions_with_symbol self symbol) =
       concat (map (\<lambda>(k, m). replicate (length (matching (PStr symbol) (positions (m_positions m))))
                                  (PNum (of_int k)))
         (monitored_accounts self))"
    by (simp add: positions_with_symbol_def map_concat comp_def case_prod_unfold
          dict_get_tag_login map_replicate_const)
  from first second third show ?thesis by blast
qed

text \<open>
  C6 as stated fails: account 2 was added before account 1, and the positions of
  account 2 come first in the result.
\<close>

theorem positions_by_symbol_counterexample:
  "map fst (monitored_accounts demo_state) = [2, 1]
   \<and> snd (get_positions_by_symbol ''EURUSD'' demo_state) =
       Inr [[(''symbol'', PStr ''EURUSD''), (''volume'', PNum 2), (''type'', PNum 1), (''login_id'', PNum 2)],
            [(''symbol'', PStr ''EURUSD''), (''volume'', PNum 1), (''type'', PNum 0), (''login_id'', PNum 1)]]"
  by (simp add: query_defs demo_defs tick_defs)

theorem positions_by_symbol_order_witness:
  "all_mappings demo_state
   \<and> snd (get_positions_by_symbol ''EURUSD'' demo_state) = Inr (positions_with_symbol demo_state ''EURUSD'')
   \<and> map (\<lambda>p. dict_get p ''login_id'' PNone) (positions_with_symbol demo_state ''EURUSD'') = [PNum 2, PNum 1]
   \<and> \<not> all_mappings (apply_operation (Tick 10) raw_start)
   \<and> snd (get_positions_by_symbol ''EURUSD'' (apply_operation (Tick 10) raw_start)) = Inl AttributeError"
proof -
  have a: "all_mappings demo_state"
    by (simp add: query_defs demo_defs tick_defs all_mappings_def readable_def)
  have b: "\<not> all_mappings (apply_operation (Tick 10) raw_start)"
    by (simp add: query_defs demo_defs tick_defs all_mappings_def readable_def)
  have c: "map (\<lambda>(k, m). positions (m_positions m)) (monitored_accounts demo_state) =
     [[PyDict [(''symbol'', PStr ''EURUSD''), (''volume'', PNum 2), (''type'', PNum 1)]],
      [PyDict [(''symbol'', PStr ''EURUSD''), (''volume'', PNum 1), (''type'', PNum 0)]]]
     \<and> map fst (monitored_accounts demo_state) = [2, 1]"
    by (simp add: query_defs demo_defs tick_defs)
  from positions_by_symbol_order[of "''EURUSD''" demo_state]
       positions_by_symbol_order[of "''EURUSD''" "apply_operation (Tick 10) raw_start"] a b
  have "snd (get_positions_by_symbol ''EURUSD'' demo_state) = Inr (positions_with_symbol demo_state ''EURUSD'')"
    and "snd (get_positions_by_symbol ''EURUSD'' (apply_operation (Tick 10) raw_start)) = Inl AttributeError"
    and "map (\<lambda>p. dict_get p ''login_id'' PNone) (positions_with_symbol demo_state ''EURUSD'') =
       concat (map (\<lambda>(k, m). replicate (length (matching (PStr ''EURUSD'') (positions (m_positions m))))
                                  (PNum (of_int k)))
         (monitored_accounts demo_state))"
    by simp_all
  moreover have "concat (map (\<lambda>(k, m). replicate (length (matching (PStr ''EURUSD'') (positions (m_positions m))))
                                  (PNum (of_int k)))
         (monitored_accounts demo_state)) = [PNum 2, PNum 1]"
    by (simp add: query_defs demo_defs tick_defs dict_get_def)
  ultimately show ?thesis using a b by simp
qed

section \<open>What the queries change\<close>

text \<open>
  C5, as the code has it. \<open>get_total_exposure_by_symbol\<close> leaves the state as it is,
  whatever the float operations.
  \<open>get_positions_by_symbol\<close> writes the login of the account into every stored
  position whose symbol is the one asked for, in the accounts it reads before it raises
  (all of them when it does not raise), and changes nothing else: keys, order, account
  monitors, trade monitors and the number of stored positions stay, and when no stored
  position carries the symbol the state is unchanged.
\<close>

theorem query_effects:
  "fst (get_total_exposure_by_symbol ops self) = self
   \<and> fst (get_positions_by_symbol symbol self) =
       self\<lparr>monitored_accounts :=
         map (tag_entry (PStr symbol)) (takeWhile readable (monitored_accounts self)) @
         dropWhile readable (monitored_accounts self)\<rparr>
   \<and> map outside_positions (monitored_accounts (fst (get_positions_by_symbol symbol self))) =
       map outside_positions (monitored_accounts self)
   \<and> ((\<forall>(k, m) \<in> set (monitored_accounts self). matching (PStr symbol) (positions (m_positions m)) = []) \<longrightarrow>
        fst (get_positions_by_symbol symbol self) = self)"
proof -
  let ?accs = "monitored_accounts self"
  let ?new = "map (tag_entry (PStr symbol)) (takeWhile readable ?accs) @ dropWhile readable ?accs"
  have state: "fst (get_positions_by_symbol symbol self) = self\<lparr>monitored_accounts := ?new\<rparr>"
    by (simp add: get_positions_by_symbol_eq)
  have out: "outside_positions (tag_entry (PStr symbol) a) = outside_positions a" for a
    by (simp add: outside_positions_def tag_entry_kept)
  have "map outside_positions ?new =
        map outside_positions (takeWhile readable ?accs) @ map outside_positions (dropWhile readable ?accs)"
    by (simp add: out)
  also have "\<dots> = map outside_positions ?accs"
    by (simp only: map_append[symmetric] takeWhile_dropWhile_id)
  finally have frame: "map outside_positions ?new = map outside_positions ?accs" .
  have same: "?new = ?accs"
    if none: "\<forall>(k, m) \<in> set ?accs. matching (PStr symbol) (positions (m_positions m)) = []"
  proof -
    have "tag_entry (PStr symbol) a = a" if "a \<in> set ?accs" for a
    proof -
      obtain k m where a: "a = (k, m)" by (cases a)
      with that none have "matching (PStr symbol) (positions (m_positions m)) = []" by auto
      with a show ?thesis by (simp add: tag_entry_def tag_matching_none)
    qed
    then have "map (tag_entry (PStr symbol)) (takeWhile readable ?accs) = takeWhile readable ?accs"
      by (intro map_idI) (auto dest: set_takeWhileD)
    then show ?thesis by simp
  qed
  from state frame same show ?thesis
    by (simp add: get_total_exposure_by_symbol_def)
qed

text \<open>
  C5 as stated fails: after asking for the EURUSD positions, the stored position
  entries of both accounts carry a \<open>login_id\<close> key they did not have.
\<close>

theorem query_effects_counterexample:
  "map (\<lambda>(k, m). positions (m_positions m)) (monitored_accounts demo_state) =
     [[PyDict [(''symbol'', PStr ''EURUSD''), (''volume'', PNum 2), (''type'', PNum 1)]],
      [PyDict [(''symbol'', PStr ''EURUSD''), (''volume'', PNum 1), (''type'', PNum 0)]]]
   \<and> map (\<lambda>(k, m). positions (m_positions m))
        (monitored_accounts (fst (get_positions_by_symbol ''EURUSD'' demo_state))) =
     [[PyDict [(''symbol'', PStr ''EURUSD''), (''volume'', PNum 2), (''type'', PNum 1), (''login_id'', PNum 2)]],
      [PyDict [(''symbol'', PStr ''EURUSD''), (''volume'', PNum 1), (''type'', PNum 0), (''login_id'', PNum 1)]]]
   \<and> fst (get_positions_by_symbol ''EURUSD'' demo_state) \<noteq> demo_state"
proof -
  have before: "map (\<lambda>(k, m). positions (m_positions m)) (monitored_accounts demo_state) =
     [[PyDict [(''symbol'', PStr ''EURUSD''), (''volume'', PNum 2), (''type'', PNum 1)]],
      [PyDict [(''symbol'', PStr ''EURUSD''), (''volume'', PNum 1), (''type'', PNum 0)]]]"
    by (simp add: query_defs demo_defs tick_defs)
  have after: "map (\<lambda>(k, m). positions (m_positions m))
        (monitored_accounts (fst (get_positions_by_symbol ''EURUSD'' demo_state))) =
     [[PyDict [(''symbol'', PStr ''EURUSD''), (''volume'', PNum 2), (''type'', PNum 1), (''login_id'', PNum 2)]],
      [PyDict [(''symbol'', PStr ''EURUSD''), (''volume'', PNum 1), (''type'', PNum 0), (''login_id'', PNum 1)]]]"
    by (simp add: query_defs demo_defs tick_defs)
  have "fst (get_positions_by_symbol ''EURUSD'' demo_state) \<noteq> demo_state"
  proof
    assume "fst (get_positions_by_symbol ''EURUSD'' demo_state) = demo_state"
    with before after show False by simp
  qed
  with before after show ?thesis by simp
qed

theorem query_effects_witness:
  "fst (get_positions_by_symbol ''GBPUSD'' demo_state) = demo_state
   \<and> map (\<lambda>(k, m). matching (PStr ''GBPUSD'') (positions (m_positions m))) (monitored_accounts demo_state)
       = [[], []]
   \<and> fst (get_total_exposure_by_symbol whole_number_ops demo_state) = demo_state"
proof -
  have c: "map (\<lambda>(k, m). positions (m_positions m)) (monitored_accounts demo_state) =
     [[PyDict [(''symbol'', PStr ''EURUSD''), (''volume'', PNum 2), (''type'', PNum 1)]],
      [PyDict [(''symbol'', PStr ''EURUSD''), (''volume'', PNum 1), (''type'', PNum 0)]]]"
    by (simp add: query_defs demo_defs tick_defs)
  have m: "map (\<lambda>(k, m). matching (PStr ''GBPUSD'') (positions (m_positions m))) (monitored_accounts demo_state)
       = [[], []]"
    by (simp add: query_defs demo_defs tick_defs dict_get_def)
  have none: "\<forall>(k, m) \<in> set (monitored_accounts demo_state).
      matching (PStr ''GBPUSD'') (positions (m_positions m)) = []"
    by (simp add: query_defs demo_defs tick_defs dict_get_def)
  note q = query_effects[of whole_number_ops demo_state "''GBPUSD''"]
  from q none have p: "fst (get_positions_by_symbol ''GBPUSD'' demo_state) = demo_state" by blast
  from q have e: "fst (get_total_exposure_by_symbol whole_number_ops demo_state) = demo_state" by blast
  from p m e show ?thesis by blast
qed

section \<open>Facts about the exposure query\<close>










section \<open>The exposure of a symbol\<close>


lemma demo_positions:
  "map (\<lambda>(k, m). positions (m_positions m)) (monitored_accounts demo_state) =
     [[PyDict [(''symbol'', PStr ''EURUSD''), (''volume'', PNum 2), (''type'', PNum 1)]],
      [PyDict [(''symbol'', PStr ''EURUSD''), (''volume'', PNum 1), (''type'', PNum 0)]]]"
  by (simp add: query_defs demo_defs tick_defs)



text \<open>Numbers that do not convert, and doubles the whole-number operations do not follow.\<close>

lemma whole_number_ops_examples:
  "fl_of_number whole_number_ops (10 ^ 400) = None
   \<and> fl_of_number whole_number_ops (1 / 2) = Some None
   \<and> fl_add whole_number_ops (Some (2 ^ 53)) (Some 1) = None
   \<and> fl_add whole_number_ops (Some 2) (Some 1) = Some 3"
  by (simp add: whole_number_ops_def whole_def)

end
